theory Spec2Isabelle
  imports Complex_Main
begin

section \<open>JavaScript values used by the directive\<close>

text \<open>
  The directive of \<^verbatim>\<open>src/index.ts\<close> computes with JavaScript numbers and strings.
  Numbers are modelled with exact rational arithmetic, extended by \<open>NaN\<close> and the two
  infinities; the rounding of IEEE doubles is not modelled (on the decimal strings that
  a computed style yields, such as \<^verbatim>\<open>0.3s\<close>, both agree). Strings are lists of
  8-bit characters, read as code units below 256.
\<close>

datatype num = NaN | NegInf | Fin rat | PosInf

text \<open>\<^verbatim>\<open>a + b\<close> on numbers.\<close>

fun num_add :: "num \<Rightarrow> num \<Rightarrow> num" where
  "num_add NaN _ = NaN"
| "num_add _ NaN = NaN"
| "num_add PosInf NegInf = NaN"
| "num_add NegInf PosInf = NaN"
| "num_add PosInf _ = PosInf"
| "num_add _ PosInf = PosInf"
| "num_add NegInf _ = NegInf"
| "num_add _ NegInf = NegInf"
| "num_add (Fin a) (Fin b) = Fin (a + b)"

text \<open>\<^verbatim>\<open>a * b\<close> on numbers.\<close>

fun num_mult :: "num \<Rightarrow> num \<Rightarrow> num" where
  "num_mult NaN _ = NaN"
| "num_mult _ NaN = NaN"
| "num_mult (Fin a) (Fin b) = Fin (a * b)"
| "num_mult (Fin a) PosInf = (if a = 0 then NaN else if 0 < a then PosInf else NegInf)"
| "num_mult (Fin a) NegInf = (if a = 0 then NaN else if 0 < a then NegInf else PosInf)"
| "num_mult PosInf (Fin b) = (if b = 0 then NaN else if 0 < b then PosInf else NegInf)"
| "num_mult NegInf (Fin b) = (if b = 0 then NaN else if 0 < b then NegInf else PosInf)"
| "num_mult PosInf PosInf = PosInf"
| "num_mult NegInf NegInf = PosInf"
| "num_mult PosInf NegInf = NegInf"
| "num_mult NegInf PosInf = NegInf"

text \<open>\<^verbatim>\<open>a < b\<close> on numbers: false as soon as one side is \<open>NaN\<close>.\<close>

fun num_less :: "num \<Rightarrow> num \<Rightarrow> bool" where
  "num_less NaN _ = False"
| "num_less _ NaN = False"
| "num_less (Fin a) (Fin b) = (a < b)"
| "num_less NegInf NegInf = False"
| "num_less NegInf _ = True"
| "num_less _ NegInf = False"
| "num_less PosInf _ = False"
| "num_less _ PosInf = True"

text \<open>
  \<^verbatim>\<open>Math.max(...xs)\<close>: \<open>-Infinity\<close> for no argument, \<open>NaN\<close> as soon as one
  argument is \<open>NaN\<close>, the greatest argument otherwise.
\<close>

fun max2 :: "num \<Rightarrow> num \<Rightarrow> num" where
  "max2 NaN _ = NaN"
| "max2 _ NaN = NaN"
| "max2 a b = (if num_less a b then b else a)"

definition Math_max :: "num list \<Rightarrow> num" where
  "Math_max xs = foldl max2 NegInf xs"

subsection \<open>Strings\<close>

text \<open>
  White space and line terminators, as \<^verbatim>\<open>\s\<close> and the trimming of \<^verbatim>\<open>Number\<close>
  know them, among the code units below 256: TAB, LF, VT, FF, CR, space and the
  no-break space.
\<close>

definition WhiteSpace :: "char \<Rightarrow> bool" where
  "WhiteSpace c = (of_char c \<in> {9, 10, 11, 12, 13, 32, 160 :: nat})"

definition trim :: "string \<Rightarrow> string" where
  "trim s = rev (dropWhile WhiteSpace (rev (dropWhile WhiteSpace s)))"

text \<open>\<^verbatim>\<open>s.slice(0, -1)\<close>: the string without its last code unit.\<close>

definition slice_0_m1 :: "string \<Rightarrow> string" where
  "slice_0_m1 s = butlast s"

text \<open>\<^verbatim>\<open>s.replace(',', '.')\<close>: a string pattern replaces its first occurrence only.\<close>

fun replace_first :: "char \<Rightarrow> char \<Rightarrow> string \<Rightarrow> string" where
  "replace_first a b [] = []"
| "replace_first a b (c # cs) = (if c = a then b # cs else c # replace_first a b cs)"

text \<open>\<^verbatim>\<open>s.split(', ')\<close>: the pieces between the occurrences of comma-space.\<close>

fun split_comma_space :: "string \<Rightarrow> string list" where
  "split_comma_space [] = [[]]"
| "split_comma_space [c] = [[c]]"
| "split_comma_space (c # d # cs) =
     (if c = CHR '','' \<and> d = CHR '' '' then [] # split_comma_space cs
      else (case split_comma_space (d # cs) of
              [] \<Rightarrow> [[c]]
            | x # xs \<Rightarrow> (c # x) # xs))"

text \<open>
  \<^verbatim>\<open>cls.split(/\s+/)\<close> followed by the test \<^verbatim>\<open>c && ...\<close>: the non-empty maximal
  runs of characters that are not white space.
\<close>

function tokens :: "string \<Rightarrow> string list" where
  "tokens [] = []"
| "tokens (c # cs) =
     (if WhiteSpace c then tokens cs
      else (c # takeWhile (\<lambda>x. \<not> WhiteSpace x) cs) # tokens (dropWhile (\<lambda>x. \<not> WhiteSpace x) cs))"
  by pat_completeness auto
termination
  by (relation "measure length") (auto simp: less_Suc_eq_le length_dropWhile_le)

subsection \<open>\<^verbatim>\<open>Number(string)\<close>\<close>

text \<open>
  The conversion of a string to a number: white space is trimmed; the empty string is 0;
  a decimal literal has an optional sign, digits with an optional fraction and an
  optional exponent; \<^verbatim>\<open>Infinity\<close> may be signed; hexadecimal, octal and binary
  integers carry no sign; every other string is \<open>NaN\<close>.
\<close>

definition digit_val :: "char \<Rightarrow> nat" where
  "digit_val c =
     (let n = of_char c in
      if 48 \<le> n \<and> n \<le> 57 then n - 48
      else if 97 \<le> n \<and> n \<le> 102 then n - 87
      else if 65 \<le> n \<and> n \<le> 70 then n - 55
      else 16)"

definition digits_in :: "nat \<Rightarrow> string \<Rightarrow> bool" where
  "digits_in b s = list_all (\<lambda>c. digit_val c < b) s"

definition digits_value :: "nat \<Rightarrow> string \<Rightarrow> nat" where
  "digits_value b s = foldl (\<lambda>acc c. acc * b + digit_val c) 0 s"

definition is_exp_char :: "char \<Rightarrow> bool" where
  "is_exp_char c = (c = CHR ''e'' \<or> c = CHR ''E'')"

definition is_sign_char :: "char \<Rightarrow> bool" where
  "is_sign_char c = (c = CHR ''+'' \<or> c = CHR ''-'')"

text \<open>The exponent part after its \<^verbatim>\<open>e\<close>: an optional sign and at least one digit.\<close>

definition exponent_part :: "string \<Rightarrow> int option" where
  "exponent_part s =
     (let neg = (s \<noteq> [] \<and> hd s = CHR ''-'');
          ds = (if s \<noteq> [] \<and> is_sign_char (hd s) then tl s else s)
      in if ds \<noteq> [] \<and> digits_in 10 ds
         then Some (if neg then - int (digits_value 10 ds) else int (digits_value 10 ds))
         else None)"

definition pow10 :: "int \<Rightarrow> rat" where
  "pow10 e = (if 0 \<le> e then 10 ^ nat e else 1 / 10 ^ nat (- e))"

text \<open>An unsigned decimal literal: digits, optional fraction, optional exponent.\<close>

definition unsigned_decimal :: "string \<Rightarrow> num" where
  "unsigned_decimal s =
     (if s = ''Infinity'' then PosInf
      else
        let mant = takeWhile (\<lambda>c. \<not> is_exp_char c) s;
            rest = dropWhile (\<lambda>c. \<not> is_exp_char c) s;
            ip = takeWhile (\<lambda>c. c \<noteq> CHR ''.'') mant;
            dotfp = dropWhile (\<lambda>c. c \<noteq> CHR ''.'') mant;
            fp = tl dotfp;
            mant_ok = (digits_in 10 ip \<and> digits_in 10 fp \<and> (ip \<noteq> [] \<or> fp \<noteq> []));
            ex = (if rest = [] then Some 0 else exponent_part (tl rest))
        in case ex of
             None \<Rightarrow> NaN
           | Some e \<Rightarrow>
               if mant_ok
               then Fin ((of_nat (digits_value 10 ip)
                          + of_nat (digits_value 10 fp) / 10 ^ length fp) * pow10 e)
               else NaN)"

definition non_decimal :: "string \<Rightarrow> num option" where
  "non_decimal s =
     (if length s < 2 \<or> hd s \<noteq> CHR ''0'' then None
      else
        let p = s ! 1; ds = drop 2 s;
            b = (if p = CHR ''x'' \<or> p = CHR ''X'' then 16
                 else if p = CHR ''o'' \<or> p = CHR ''O'' then 8
                 else if p = CHR ''b'' \<or> p = CHR ''B'' then 2
                 else (0::nat))
        in if b = 0 then None
           else if ds \<noteq> [] \<and> digits_in b ds then Some (Fin (of_nat (digits_value b ds)))
           else Some NaN)"

definition Number_of :: "string \<Rightarrow> num" where
  "Number_of str =
     (let s = trim str in
      if s = [] then Fin 0
      else case non_decimal s of
             Some n \<Rightarrow> n
           | None \<Rightarrow>
               if hd s = CHR ''-'' then num_mult (Fin (- 1)) (unsigned_decimal (tl s))
               else if hd s = CHR ''+'' then unsigned_decimal (tl s)
               else unsigned_decimal s)"

section \<open>Timing of a CSS transition\<close>

text \<open>
  \<^verbatim>\<open>function toMs(s) { return Number(s.slice(0, -1).replace(',', '.')) * 1000; }\<close>
\<close>

definition toMs :: "string \<Rightarrow> num" where
  "toMs s = num_mult (Number_of (replace_first (CHR '','') (CHR ''.'') (slice_0_m1 s))) (Fin 1000)"

text \<open>
  \<^verbatim>\<open>while (delays.length < durations.length) { delays = delays.concat(delays); }\<close>
  The loop does not end when \<open>delays\<close> is empty and \<open>durations\<close> is not: the value
  \<open>None\<close> stands for a call that never returns.
\<close>

partial_function (option) pad_delays :: "string list \<Rightarrow> nat \<Rightarrow> string list option" where
  "pad_delays delays n =
     (if length delays < n then pad_delays (delays @ delays) n else Some delays)"

declare pad_delays.simps [code]

text \<open>
  \<^verbatim>\<open>return Math.max(...durations.map((d, i) => toMs(d) + toMs(delays[i])));\<close>
  After the loop \<open>delays\<close> is at least as long as \<open>durations\<close>, so every index
  read is in range.
\<close>

definition getTimeout :: "string list \<Rightarrow> string list \<Rightarrow> num option" where
  "getTimeout delays durations =
     (case pad_delays delays (length durations) of
        None \<Rightarrow> None
      | Some ds \<Rightarrow>
          Some (Math_max (map (\<lambda>(d, i). num_add (toMs d) (toMs (ds ! i)))
                              (zip durations [0 ..< length durations]))))"


section \<open>Values of binding expressions\<close>

text \<open>
  The value of a binding expression (\<^verbatim>\<open>ctx.get()\<close>, typed \<^verbatim>\<open>any\<close>): the
  primitive values and arrays.
\<close>

datatype jsval = JUndefined | JNull | JBool bool | JNum num | JStr string | JArr "jsval list"

text \<open>The truth value of a value in a condition (\<^verbatim>\<open>if (v)\<close>, \<^verbatim>\<open>v ? a : b\<close>).\<close>

fun truthy :: "jsval \<Rightarrow> bool" where
  "truthy JUndefined = False"
| "truthy JNull = False"
| "truthy (JBool b) = b"
| "truthy (JNum n) = (n \<noteq> NaN \<and> n \<noteq> Fin 0)"
| "truthy (JStr s) = (s \<noteq> [])"
| "truthy (JArr xs) = True"

text \<open>\<^verbatim>\<open>Array.isArray(v)\<close>\<close>

fun isArray :: "jsval \<Rightarrow> bool" where
  "isArray (JArr xs) = True"
| "isArray _ = False"

text \<open>\<^verbatim>\<open>v?.[i]\<close>: \<open>undefined\<close> on \<open>undefined\<close> and \<open>null\<close>, the indexed read otherwise.\<close>

fun opt_index :: "jsval \<Rightarrow> nat \<Rightarrow> jsval" where
  "opt_index (JArr xs) i = (if i < length xs then xs ! i else JUndefined)"
| "opt_index (JStr s) i = (if i < length s then JStr [s ! i] else JUndefined)"
| "opt_index _ i = JUndefined"

text \<open>
  The string a template literal makes of a value. How the engine prints a finite number
  is left open: it is the parameter \<open>nf\<close>.
\<close>

fun join_comma :: "string list \<Rightarrow> string" where
  "join_comma [] = []"
| "join_comma [x] = x"
| "join_comma (x # y # ys) = x @ '','' @ join_comma (y # ys)"

fun ToString :: "(rat \<Rightarrow> string) \<Rightarrow> jsval \<Rightarrow> string" where
  "ToString nf JUndefined = ''undefined''"
| "ToString nf JNull = ''null''"
| "ToString nf (JBool b) = (if b then ''true'' else ''false'')"
| "ToString nf (JNum NaN) = ''NaN''"
| "ToString nf (JNum PosInf) = ''Infinity''"
| "ToString nf (JNum NegInf) = ''-Infinity''"
| "ToString nf (JNum (Fin q)) = nf q"
| "ToString nf (JStr s) = s"
| "ToString nf (JArr xs) =
     join_comma (map (\<lambda>x. if x = JUndefined \<or> x = JNull then [] else ToString nf x) xs)"

section \<open>The element and the world around it\<close>

text \<open>
  What \<^verbatim>\<open>window.getComputedStyle(el)\<close> yields for the three transition properties;
  \<open>None\<close> is a property the environment does not know (JSDOM).
\<close>

record computedStyle =
  transitionDelay :: "string option"
  transitionDuration :: "string option"
  transitionProperty :: "string option"

record CSSTransitionInfo =
  propCount :: nat
  timeout :: num
  hasTransform :: bool

text \<open>
  An element: its class list (an ordered set of tokens), its inline
  \<^verbatim>\<open>style.display\<close> (\<open>None\<close> for an element without \<^verbatim>\<open>style\<close>), the four
  properties the directive attaches (\<open>None\<close>: absent), the computed style as the
  style sheets give it for each class list, and the two variables
  \<^verbatim>\<open>mounted\<close> and \<^verbatim>\<open>originalDisaplay\<close> of the directive bound to it.
\<close>

record element =
  classList :: "string list"
  style_display :: "string option"
  prop_name :: "jsval option"
  prop_duration :: "jsval option"
  prop_show :: "jsval option"
  prop_endId :: "nat option"
  computed :: "string list \<Rightarrow> computedStyle"
  mounted :: bool
  originalDisaplay :: string

type_synonym eid = nat

text \<open>
  Closures are data. The variables one run of the effect captures: the element, the
  transition name (from which the six class names are made) and the two durations.
\<close>

record scope =
  sc_el :: eid
  sc_name :: string
  sc_enterDuration :: jsval
  sc_leaveDuration :: jsval

datatype resolve_cb = FinishEnter scope | FinishLeaveHide scope

datatype frame_cb = NextFrameArrow frame_cb | EnterFrame scope | LeaveFrame scope

text \<open>
  One call of \<^verbatim>\<open>whenTransitionEnd\<close>: the element, the id it took and its resolve
  callback. Its counter \<^verbatim>\<open>ended\<close> lives in the world, under the id.
\<close>

record wcall =
  c_el :: eid
  c_id :: nat
  c_resolve :: resolve_cb

datatype timer_cb = ResolveIfNotStale wcall | Fallback wcall nat

datatype op =
    ClassAdd eid string
  | ClassRemove eid string
  | DisplaySet eid string
  | ForceReflow
  | RequestFrame
  | StyleRead eid
  | TimerSet jsval
  | ListenerAdd eid nat
  | ListenerRemove eid nat
  | EndIdSet eid nat
  | ResolveCall nat

text \<open>
  The world: the elements, the module's counter \<^verbatim>\<open>endId\<close>, the queue of
  animation-frame callbacks, the pending timers (handle, delay, callback), the
  \<^verbatim>\<open>transitionend\<close> listeners (element, call, \<open>propCount\<close>), the counters
  \<^verbatim>\<open>ended\<close>, the engine's printing of finite numbers, and the log of what was done
  to the document, oldest first. The counter and the ids are natural numbers: a
  JavaScript number counts exactly as long as it stays below \<open>2^53\<close>.
\<close>

record world =
  elements :: "eid \<Rightarrow> element"
  endId :: nat
  frames :: "frame_cb list"
  timers :: "(nat \<times> jsval \<times> timer_cb) list"
  timer_seq :: nat
  listeners :: "(eid \<times> wcall \<times> nat) list"
  ended :: "nat \<Rightarrow> nat"
  numberToString :: "rat \<Rightarrow> string"
  log :: "op list"

definition upd_el :: "eid \<Rightarrow> (element \<Rightarrow> element) \<Rightarrow> world \<Rightarrow> world" where
  "upd_el e f w = w\<lparr>elements := (elements w)(e := f (elements w e))\<rparr>"

definition emit :: "op \<Rightarrow> world \<Rightarrow> world" where
  "emit x w = w\<lparr>log := log w @ [x]\<rparr>"

subsection \<open>The browser's operations\<close>

definition classList_add :: "eid \<Rightarrow> string \<Rightarrow> world \<Rightarrow> world" where
  "classList_add e c w =
     emit (ClassAdd e c)
       (upd_el e (\<lambda>el. el\<lparr>classList := (if c \<in> set (classList el) then classList el
                                          else classList el @ [c])\<rparr>) w)"

definition classList_remove :: "eid \<Rightarrow> string \<Rightarrow> world \<Rightarrow> world" where
  "classList_remove e c w =
     emit (ClassRemove e c) (upd_el e (\<lambda>el. el\<lparr>classList := removeAll c (classList el)\<rparr>) w)"

definition requestAnimationFrame :: "frame_cb \<Rightarrow> world \<Rightarrow> world" where
  "requestAnimationFrame cb w = emit RequestFrame (w\<lparr>frames := frames w @ [cb]\<rparr>)"

definition setTimeout :: "timer_cb \<Rightarrow> jsval \<Rightarrow> world \<Rightarrow> world" where
  "setTimeout cb delay w =
     emit (TimerSet delay)
       (w\<lparr>timers := timers w @ [(timer_seq w, delay, cb)], timer_seq := timer_seq w + 1\<rparr>)"

definition addEventListener :: "eid \<Rightarrow> wcall \<Rightarrow> nat \<Rightarrow> world \<Rightarrow> world" where
  "addEventListener e c pc w =
     emit (ListenerAdd e (c_id c))
       (w\<lparr>listeners := (if (e, c, pc) \<in> set (listeners w) then listeners w
                          else listeners w @ [(e, c, pc)])\<rparr>)"

definition removeEventListener :: "eid \<Rightarrow> wcall \<Rightarrow> nat \<Rightarrow> world \<Rightarrow> world" where
  "removeEventListener e c pc w =
     emit (ListenerRemove e (c_id c)) (w\<lparr>listeners := removeAll (e, c, pc) (listeners w)\<rparr>)"

subsection \<open>The helpers of the module\<close>

text \<open>
  \<^verbatim>\<open>function addTransitionClass(el, cls) { cls.split(/\s+/).forEach(c => c && el.classList.add(c)); }\<close>
\<close>

definition addTransitionClass :: "eid \<Rightarrow> string \<Rightarrow> world \<Rightarrow> world" where
  "addTransitionClass e cls w = foldl (\<lambda>w c. classList_add e c w) w (tokens cls)"

definition removeTransitionClass :: "eid \<Rightarrow> string \<Rightarrow> world \<Rightarrow> world" where
  "removeTransitionClass e cls w = foldl (\<lambda>w c. classList_remove e c w) w (tokens cls)"

text \<open>\<^verbatim>\<open>return el?.style?.display || '';\<close>\<close>

definition getElementDisplay :: "element \<Rightarrow> string" where
  "getElementDisplay el = (case style_display el of None \<Rightarrow> [] | Some d \<Rightarrow> d)"

text \<open>\<^verbatim>\<open>return !!el.style;\<close>\<close>

definition isHTMLElement :: "element \<Rightarrow> bool" where
  "isHTMLElement el = (style_display el \<noteq> None)"

text \<open>\<^verbatim>\<open>if (isHTMLElement(el)) { el.style.display = display; }\<close>\<close>

definition setElementDisplay :: "eid \<Rightarrow> string \<Rightarrow> world \<Rightarrow> world" where
  "setElementDisplay e display w =
     (if isHTMLElement (elements w e)
      then emit (DisplaySet e display) (upd_el e (\<lambda>el. el\<lparr>style_display := Some display\<rparr>) w)
      else w)"

text \<open>\<^verbatim>\<open>function forceReflow() { return document.body.offsetHeight; }\<close>\<close>

definition forceReflow :: "world \<Rightarrow> world" where
  "forceReflow w = emit ForceReflow w"

text \<open>\<^verbatim>\<open>function nextFrame(cb) { requestAnimationFrame(() => { requestAnimationFrame(cb); }); }\<close>\<close>

definition nextFrame :: "frame_cb \<Rightarrow> world \<Rightarrow> world" where
  "nextFrame cb w = requestAnimationFrame (NextFrameArrow cb) w"

subsection \<open>\<^verbatim>\<open>getTransitionInfo\<close>\<close>

text \<open>\<^verbatim>\<open>(styles[key] || '').split(', ')\<close>\<close>

definition getStyleProperties :: "string option \<Rightarrow> string list" where
  "getStyleProperties v = split_comma_space (case v of None \<Rightarrow> [] | Some s \<Rightarrow> s)"

text \<open>
  \<^verbatim>\<open>/\b(transform|all)(,|$)/.test(s)\<close>: one of the two words, starting at a word
  boundary and followed by a comma or the end of the string.
\<close>

definition word_char :: "char \<Rightarrow> bool" where
  "word_char c =
     (let n = of_char c :: nat in
      (48 \<le> n \<and> n \<le> 57) \<or> (65 \<le> n \<and> n \<le> 90) \<or> (97 \<le> n \<and> n \<le> 122) \<or> n = 95)"

definition keyword_here :: "string \<Rightarrow> string \<Rightarrow> bool" where
  "keyword_here kw s =
     (take (length kw) s = kw
      \<and> (drop (length kw) s = [] \<or> hd (drop (length kw) s) = CHR '',''))"

fun transform_test :: "bool \<Rightarrow> string \<Rightarrow> bool" where
  "transform_test prev [] = False"
| "transform_test prev (c # cs) =
     ((\<not> prev \<and> (keyword_here ''transform'' (c # cs) \<or> keyword_here ''all'' (c # cs)))
      \<or> transform_test (word_char c) cs)"

definition getTransitionInfo :: "element \<Rightarrow> CSSTransitionInfo option" where
  "getTransitionInfo el =
     (let styles = computed el (classList el);
          transitionDelays = getStyleProperties (transitionDelay styles);
          transitionDurations = getStyleProperties (transitionDuration styles)
      in case getTimeout transitionDelays transitionDurations of
           None \<Rightarrow> None
         | Some transitionTimeout \<Rightarrow>
             Some \<lparr>propCount = (if num_less (Fin 0) transitionTimeout
                                 then length transitionDurations else 0),
                   timeout = (if num_less (Fin 0) transitionTimeout
                               then transitionTimeout else Fin 0),
                   hasTransform =
                     transform_test False
                       (case transitionProperty styles of None \<Rightarrow> ''undefined'' | Some s \<Rightarrow> s)\<rparr>)"

section \<open>The directive\<close>

definition DefautlTransitionName :: string where
  "DefautlTransitionName = ''v''"

datatype TransitionArgument = Name | Duration | Show

definition DefaultArg :: TransitionArgument where
  "DefaultArg = Show"

text \<open>The enum's string values, and \<^verbatim>\<open>isTransitionArugument\<close>: membership in \<^verbatim>\<open>ArgSet\<close>.\<close>

fun arg_string :: "TransitionArgument \<Rightarrow> string" where
  "arg_string Name = ''name''"
| "arg_string Duration = ''duration''"
| "arg_string Show = ''show''"

definition ArgSet :: "TransitionArgument list" where
  "ArgSet = [Name, Duration, Show]"

definition isTransitionArugument :: "string \<Rightarrow> bool" where
  "isTransitionArugument arg = (arg \<in> set (map arg_string ArgSet))"

definition as_argument :: "string \<Rightarrow> TransitionArgument" where
  "as_argument arg = (if arg = ''name'' then Name else if arg = ''duration'' then Duration else Show)"

subsection \<open>The class names of one run of the effect\<close>

definition enterFromClass :: "scope \<Rightarrow> string" where
  "enterFromClass sc = sc_name sc @ ''-enter-from''"

definition enterActiveClass :: "scope \<Rightarrow> string" where
  "enterActiveClass sc = sc_name sc @ ''-enter-active''"

definition enterToClass :: "scope \<Rightarrow> string" where
  "enterToClass sc = sc_name sc @ ''-enter-to''"

definition leaveFromClass :: "scope \<Rightarrow> string" where
  "leaveFromClass sc = sc_name sc @ ''-leave-from''"

definition leaveActiveClass :: "scope \<Rightarrow> string" where
  "leaveActiveClass sc = sc_name sc @ ''-leave-active''"

definition leaveToClass :: "scope \<Rightarrow> string" where
  "leaveToClass sc = sc_name sc @ ''-leave-to''"

text \<open>
  \<^verbatim>\<open>finishEnter(done)\<close> and \<^verbatim>\<open>finishLeave(done)\<close>, here without \<open>done\<close>; the
  two resolve callbacks are \<^verbatim>\<open>finishEnter\<close> itself and
  \<^verbatim>\<open>() => finishLeave(() => { setElementDisplay(el, 'none'); })\<close>.
\<close>

definition finishEnter :: "scope \<Rightarrow> world \<Rightarrow> world" where
  "finishEnter sc w =
     removeTransitionClass (sc_el sc) (enterToClass sc)
       (removeTransitionClass (sc_el sc) (enterActiveClass sc) w)"

definition finishLeave :: "scope \<Rightarrow> world \<Rightarrow> world" where
  "finishLeave sc w =
     removeTransitionClass (sc_el sc) (leaveToClass sc)
       (removeTransitionClass (sc_el sc) (leaveActiveClass sc) w)"

fun run_resolve :: "resolve_cb \<Rightarrow> world \<Rightarrow> world" where
  "run_resolve (FinishEnter sc) w = finishEnter sc w"
| "run_resolve (FinishLeaveHide sc) w = setElementDisplay (sc_el sc) ''none'' (finishLeave sc w)"

subsection \<open>\<^verbatim>\<open>whenTransitionEnd\<close>\<close>

text \<open>
  \<^verbatim>\<open>const resolveIfNotStale = () => { if (id === el._endId) { resolve(); } };\<close>
\<close>

definition resolveIfNotStale :: "wcall \<Rightarrow> world \<Rightarrow> world" where
  "resolveIfNotStale c w =
     (if prop_endId (elements w (c_el c)) = Some (c_id c)
      then run_resolve (c_resolve c) (emit (ResolveCall (c_id c)) w)
      else w)"

text \<open>
  \<^verbatim>\<open>const end = () => { el.removeEventListener('transitionend', onEnd); resolveIfNotStale(); };\<close>
\<close>

definition end_call :: "wcall \<Rightarrow> nat \<Rightarrow> world \<Rightarrow> world" where
  "end_call c pc w = resolveIfNotStale c (removeEventListener (c_el c) c pc w)"

text \<open>
  \<^verbatim>\<open>const onEnd = (e) => { if (e.target === el && ++ended >= propCount) { end(); } };\<close>
\<close>

definition onEnd :: "wcall \<Rightarrow> nat \<Rightarrow> eid \<Rightarrow> world \<Rightarrow> world" where
  "onEnd c pc target w =
     (if target = c_el c
      then let w' = w\<lparr>ended := (ended w)(c_id c := ended w (c_id c) + 1)\<rparr>
           in if pc \<le> ended w' (c_id c) then end_call c pc w' else w'
      else w)"

text \<open>The fallback timer: \<^verbatim>\<open>() => { if (ended < propCount) { end(); } }\<close>\<close>

definition fallback :: "wcall \<Rightarrow> nat \<Rightarrow> world \<Rightarrow> world" where
  "fallback c pc w = (if ended w (c_id c) < pc then end_call c pc w else w)"

fun run_timer :: "timer_cb \<Rightarrow> world \<Rightarrow> world" where
  "run_timer (ResolveIfNotStale c) w = resolveIfNotStale c w"
| "run_timer (Fallback c pc) w = fallback c pc w"

text \<open>
  \<^verbatim>\<open>whenTransitionEnd(el, explicitTimeout, resolve)\<close>. \<open>None\<close>: the call does not
  return (the loop of \<^verbatim>\<open>getTimeout\<close>).
\<close>

definition whenTransitionEnd :: "eid \<Rightarrow> jsval \<Rightarrow> resolve_cb \<Rightarrow> world \<Rightarrow> world option" where
  "whenTransitionEnd e explicitTimeout resolve w =
     (let ident = endId w + 1;
          w1 = emit (EndIdSet e ident)
                 (upd_el e (\<lambda>el. el\<lparr>prop_endId := Some ident\<rparr>) (w\<lparr>endId := ident\<rparr>));
          c = \<lparr>c_el = e, c_id = ident, c_resolve = resolve\<rparr>;
          w2 = (if truthy explicitTimeout
                then setTimeout (ResolveIfNotStale c) explicitTimeout w1 else w1)
      in case getTransitionInfo (elements w2 e) of
           None \<Rightarrow> None
         | Some info \<Rightarrow>
             let w3 = (emit (StyleRead e) w2)\<lparr>ended := (ended w2)(ident := 0)\<rparr>;
                 w4 = setTimeout (Fallback c (propCount info))
                        (JNum (num_add (timeout info) (Fin 1))) w3
             in Some (addEventListener e c (propCount info) w4))"

subsection \<open>The callbacks of \<^verbatim>\<open>nextFrame\<close>\<close>

fun run_frame_cb :: "frame_cb \<Rightarrow> world \<Rightarrow> world option" where
  "run_frame_cb (NextFrameArrow cb) w = Some (requestAnimationFrame cb w)"
| "run_frame_cb (EnterFrame sc) w =
     whenTransitionEnd (sc_el sc) (sc_enterDuration sc) (FinishEnter sc)
       (addTransitionClass (sc_el sc) (enterToClass sc)
          (removeTransitionClass (sc_el sc) (enterFromClass sc) w))"
| "run_frame_cb (LeaveFrame sc) w =
     whenTransitionEnd (sc_el sc) (sc_leaveDuration sc) (FinishLeaveHide sc)
       (addTransitionClass (sc_el sc) (leaveToClass sc)
          (removeTransitionClass (sc_el sc) (leaveFromClass sc) w))"

subsection \<open>The effect callback and the directive\<close>

text \<open>
  \<^verbatim>\<open>const { _name: name = DefautlTransitionName, _duration: duration } = el;\<close>
  The default stands in for an absent property and for the value \<open>undefined\<close>.
\<close>

definition the_scope :: "eid \<Rightarrow> world \<Rightarrow> scope" where
  "the_scope e w =
     (let el = elements w e;
          duration = (case prop_duration el of None \<Rightarrow> JUndefined | Some d \<Rightarrow> d)
      in \<lparr>sc_el = e,
          sc_name = (case prop_name el of
                       None \<Rightarrow> DefautlTransitionName
                     | Some v \<Rightarrow> if v = JUndefined then DefautlTransitionName
                                 else ToString (numberToString w) v),
          sc_enterDuration = opt_index duration 0,
          sc_leaveDuration = opt_index duration 1\<rparr>)"

text \<open>The callback given to \<^verbatim>\<open>effect\<close>, run with \<open>show\<close> the value of \<^verbatim>\<open>ctx.get()\<close>.\<close>

definition effect :: "eid \<Rightarrow> jsval \<Rightarrow> world \<Rightarrow> world" where
  "effect e show w =
     (if \<not> mounted (elements w e)
      then upd_el e (\<lambda>el. el\<lparr>mounted := True\<rparr>)
             (setElementDisplay e
                (if truthy show then originalDisaplay (elements w e) else ''none'') w)
      else
        let sc = the_scope e w in
        if truthy show
        then
          let w1 = finishLeave sc w;
              w2 = addTransitionClass e (enterActiveClass sc) w1;
              w3 = addTransitionClass e (enterFromClass sc) w2;
              w4 = setElementDisplay e (originalDisaplay (elements w e)) w3
          in nextFrame (EnterFrame sc) w4
        else
          let w1 = finishEnter sc w;
              w2 = addTransitionClass e (leaveFromClass sc) w1;
              w3 = forceReflow w2;
              w4 = addTransitionClass e (leaveActiveClass sc) w3
          in nextFrame (LeaveFrame sc) w4)"

text \<open>
  \<^verbatim>\<open>saveArgument(el, arg, val)\<close>: \<^verbatim>\<open>el[`_${arg}`] = value\<close>, where a duration that
  is not an array has become \<^verbatim>\<open>[val, val]\<close>.
\<close>

definition saveArgument :: "eid \<Rightarrow> TransitionArgument \<Rightarrow> jsval \<Rightarrow> world \<Rightarrow> world" where
  "saveArgument e arg val w =
     (let v = (if arg = Duration then (if \<not> isArray val then JArr [val, val] else val) else val)
      in upd_el e (\<lambda>el. case arg of
                          Name \<Rightarrow> el\<lparr>prop_name := Some v\<rparr>
                        | Duration \<Rightarrow> el\<lparr>prop_duration := Some v\<rparr>
                        | Show \<Rightarrow> el\<lparr>prop_show := Some v\<rparr>) w)"

text \<open>
  The directive itself, called with \<^verbatim>\<open>ctx.arg\<close> (\<open>None\<close>: no argument) and the value
  of \<^verbatim>\<open>ctx.get()\<close>. With the argument \<^verbatim>\<open>name\<close> or \<^verbatim>\<open>duration\<close> it stores the
  value; otherwise it sets up the variables of the effect, which the host runs from then
  on.
\<close>

definition transition :: "eid \<Rightarrow> string option \<Rightarrow> jsval \<Rightarrow> world \<Rightarrow> world" where
  "transition e arg val w =
     (case arg of
        None \<Rightarrow> upd_el e (\<lambda>el. el\<lparr>mounted := False, originalDisaplay := getElementDisplay el\<rparr>) w
      | Some a \<Rightarrow>
          if a \<noteq> [] \<and> isTransitionArugument a \<and> as_argument a \<noteq> DefaultArg
          then saveArgument e (as_argument a) val w
          else upd_el e (\<lambda>el. el\<lparr>mounted := False, originalDisaplay := getElementDisplay el\<rparr>) w)"

text \<open>The cleanup the directive returns: \<^verbatim>\<open>propsToClean.forEach(p => delete el[p])\<close>\<close>

definition cleanup :: "eid \<Rightarrow> world \<Rightarrow> world" where
  "cleanup e w =
     upd_el e (\<lambda>el. el\<lparr>prop_name := None, prop_duration := None, prop_show := None,
                        prop_endId := None\<rparr>) w"

section \<open>The event loop\<close>

text \<open>
  What the host and the browser do to the module: bind the directive, run the effect,
  unbind; run one animation frame (the callbacks queued before it, in order; those they
  request wait for the next frame); fire a pending timer; dispatch a
  \<^verbatim>\<open>transitionend\<close> event with a given target to the listeners of an element.
  Timers may fire in any order: every order the delays allow is among them.
\<close>

datatype event =
    Bind eid "string option" jsval
  | Effect eid jsval
  | Unbind eid
  | Frame
  | TimerFires nat
  | TransitionEnd eid eid

fun run_frames :: "frame_cb list \<Rightarrow> world \<Rightarrow> world option" where
  "run_frames [] w = Some w"
| "run_frames (cb # cbs) w =
     (case run_frame_cb cb w of None \<Rightarrow> None | Some w' \<Rightarrow> run_frames cbs w')"

definition fire_timer :: "nat \<Rightarrow> world \<Rightarrow> world" where
  "fire_timer h w =
     (case filter (\<lambda>t. fst t = h) (timers w) of
        [] \<Rightarrow> w
      | t # _ \<Rightarrow> run_timer (snd (snd t)) (w\<lparr>timers := filter (\<lambda>t. fst t \<noteq> h) (timers w)\<rparr>))"

fun dispatch :: "(eid \<times> wcall \<times> nat) list \<Rightarrow> eid \<Rightarrow> world \<Rightarrow> world" where
  "dispatch [] target w = w"
| "dispatch ((e, c, pc) # ls) target w =
     dispatch ls target (if (e, c, pc) \<in> set (listeners w) then onEnd c pc target w else w)"

fun step :: "event \<Rightarrow> world \<Rightarrow> world option" where
  "step (Bind e arg val) w = Some (transition e arg val w)"
| "step (Effect e show) w = Some (effect e show w)"
| "step (Unbind e) w = Some (cleanup e w)"
| "step Frame w = run_frames (frames w) (w\<lparr>frames := []\<rparr>)"
| "step (TimerFires h) w = Some (fire_timer h w)"
| "step (TransitionEnd cur target) w =
     Some (dispatch (filter (\<lambda>l. fst l = cur) (listeners w)) target w)"

fun run :: "event list \<Rightarrow> world \<Rightarrow> world option" where
  "run [] w = Some w"
| "run (ev # evs) w = (case step ev w of None \<Rightarrow> None | Some w' \<Rightarrow> run evs w')"

section \<open>Observations and example pages\<close>

text \<open>The completion ids assigned so far and the resolve callbacks run so far, read off the log.\<close>

fun assigned_of :: "op \<Rightarrow> nat list" where
  "assigned_of (EndIdSet e i) = [i]"
| "assigned_of _ = []"

definition assigned_ids :: "world \<Rightarrow> nat list" where
  "assigned_ids w = concat (map assigned_of (log w))"

fun resolved_of :: "op \<Rightarrow> nat list" where
  "resolved_of (ResolveCall i) = [i]"
| "resolved_of _ = []"

definition resolve_calls :: "world \<Rightarrow> nat list" where
  "resolve_calls w = concat (map resolved_of (log w))"

text \<open>
  The ids assigned so far increase strictly and none exceeds the module's counter.
\<close>

definition ids_increasing :: "world \<Rightarrow> bool" where
  "ids_increasing w =
     (sorted_wrt (<) (assigned_ids w) \<and> list_all (\<lambda>i. i \<le> endId w) (assigned_ids w))"

text \<open>
  What a step of the detector leaves alone when it does nothing for the page: the
  elements, the counter, the frame queue, the timers and the resolve callbacks run.
\<close>

definition untouched :: "world \<Rightarrow> world \<Rightarrow> bool" where
  "untouched w w' =
     (elements w' = elements w \<and> endId w' = endId w \<and> frames w' = frames w
      \<and> timers w' = timers w \<and> resolve_calls w' = resolve_calls w)"

text \<open>
  What is seen of element \<open>e\<close> at the end of a run: its classes, its inline display, the
  numbers of frame callbacks and timers still pending, and the ids whose resolve callback
  ran, in order.
\<close>

definition outcome ::
  "eid \<Rightarrow> world option \<Rightarrow> (string list \<times> string option \<times> nat \<times> nat \<times> nat list) option" where
  "outcome e r =
     map_option (\<lambda>w. (classList (elements w e), style_display (elements w e),
                       length (frames w), length (timers w), resolve_calls w)) r"

definition log_of :: "world option \<Rightarrow> op list option" where
  "log_of r = map_option log r"

text \<open>
  Two style sheets. \<open>no_css\<close>: no transition at all, the initial values of the three
  properties. \<open>fade_css\<close>: a transition of 0.3s on the opacity while one of the classes
  \<^verbatim>\<open>v-enter-active\<close>, \<^verbatim>\<open>v-leave-active\<close> is on the element.
\<close>

definition no_css :: "string list \<Rightarrow> computedStyle" where
  "no_css cl = \<lparr>transitionDelay = Some ''0s'', transitionDuration = Some ''0s'',
                transitionProperty = Some ''all''\<rparr>"

definition fade_css :: "string list \<Rightarrow> computedStyle" where
  "fade_css cl =
     (if ''v-enter-active'' \<in> set cl \<or> ''v-leave-active'' \<in> set cl
      then \<lparr>transitionDelay = Some ''0s'', transitionDuration = Some ''0.3s'',
             transitionProperty = Some ''opacity''\<rparr>
      else \<lparr>transitionDelay = Some ''0s'', transitionDuration = Some ''0s'',
             transitionProperty = Some ''all''\<rparr>)"

text \<open>A freshly loaded page: plain elements with the given style sheet, nothing pending.\<close>

definition page :: "(string list \<Rightarrow> computedStyle) \<Rightarrow> world" where
  "page css =
     \<lparr>elements = (\<lambda>_. \<lparr>classList = [], style_display = Some [], prop_name = None,
                         prop_duration = None, prop_show = None, prop_endId = None,
                         computed = css, mounted = False, originalDisaplay = []\<rparr>),
      endId = 0, frames = [], timers = [], timer_seq = 0, listeners = [],
      ended = (\<lambda>_. 0), numberToString = (\<lambda>_. []), log = []\<rparr>"

section \<open>The timeout as the specification words it\<close>

text \<open>
  The specification's reading of \<^verbatim>\<open>getTimeout\<close>: both lists are repeated to the
  length of the longer one, and the timeout is the greatest sum of delay and duration.
\<close>

definition cycle_to :: "nat \<Rightarrow> 'a list \<Rightarrow> 'a list" where
  "cycle_to n xs = map (\<lambda>i. xs ! (i mod length xs)) [0 ..< n]"

definition spec_timeout :: "string list \<Rightarrow> string list \<Rightarrow> num" where
  "spec_timeout delays durations =
     (let n = max (length delays) (length durations)
      in Math_max (map (\<lambda>(d, u). num_add (toMs d) (toMs u))
                       (zip (cycle_to n delays) (cycle_to n durations))))"

section \<open>Numbers and strings: facts\<close>

lemma num_add_commute: "num_add a b = num_add b a"
  by (cases a; cases b) simp_all

lemma nth_double: "j < 2 * length xs \<Longrightarrow> (xs @ xs) ! j = xs ! (j mod length xs)"
  by (cases "j < length xs") (simp_all add: nth_append le_mod_geq)

text \<open>With a non-empty list of delays the loop ends, and what it leaves is the list repeated.\<close>

lemma pad_delays_cycle:
  "delays \<noteq> [] \<Longrightarrow>
   \<exists>ds. pad_delays delays n = Some ds \<and> n \<le> length ds
        \<and> (\<forall>i < length ds. ds ! i = delays ! (i mod length delays))"
proof (induction "n - length delays" arbitrary: delays rule: less_induct)
  case less
  show ?case
  proof (cases "length delays < n")
    case False
    then show ?thesis by (subst pad_delays.simps) simp
  next
    case True
    from less.prems have pos: "0 < length delays" by simp
    have "n - length (delays @ delays) < n - length delays"
      unfolding length_append using True pos by linarith
    moreover have "delays @ delays \<noteq> []" using less.prems by simp
    ultimately obtain ds where ds: "pad_delays (delays @ delays) n = Some ds" "n \<le> length ds"
      "\<forall>i < length ds. ds ! i = (delays @ delays) ! (i mod length (delays @ delays))"
      using less.hyps by blast
    have "ds ! i = delays ! (i mod length delays)" if "i < length ds" for i
    proof -
      have "i mod (2 * length delays) < 2 * length delays" using pos by simp
      then have "(delays @ delays) ! (i mod (2 * length delays))
                 = delays ! (i mod (2 * length delays) mod length delays)"
        by (rule nth_double)
      also have "i mod (2 * length delays) mod length delays = i mod length delays"
        by (simp add: mod_mod_cancel)
      finally show ?thesis using ds(3) that by (simp add: mult_2)
    qed
    with ds(1,2) True show ?thesis by (subst pad_delays.simps) simp
  qed
qed

lemma getTimeout_cycle:
  assumes "delays \<noteq> []"
  shows "getTimeout delays durations =
         Some (Math_max (map (\<lambda>i. num_add (toMs (durations ! i))
                                            (toMs (delays ! (i mod length delays))))
                             [0 ..< length durations]))"
proof -
  obtain ds where ds: "pad_delays delays (length durations) = Some ds"
    "length durations \<le> length ds"
    "\<forall>i < length ds. ds ! i = delays ! (i mod length delays)"
    using pad_delays_cycle [OF assms] by blast
  have "map (\<lambda>(d, i). num_add (toMs d) (toMs (ds ! i))) (zip durations [0 ..< length durations])
        = map (\<lambda>i. num_add (toMs (durations ! i)) (toMs (delays ! (i mod length delays))))
              [0 ..< length durations]"
    using ds(2,3) by (intro nth_equalityI) simp_all
  with ds(1) show ?thesis by (simp add: getTimeout_def)
qed

lemma spec_timeout_same_length:
  assumes "length delays \<le> length durations" "delays \<noteq> []"
  shows "spec_timeout delays durations =
         Math_max (map (\<lambda>i. num_add (toMs (durations ! i))
                                      (toMs (delays ! (i mod length delays))))
                       [0 ..< length durations])"
proof -
  have "map (\<lambda>(d, u). num_add (toMs d) (toMs u))
          (zip (cycle_to (length durations) delays) (cycle_to (length durations) durations))
        = map (\<lambda>i. num_add (toMs (durations ! i)) (toMs (delays ! (i mod length delays))))
              [0 ..< length durations]"
    by (intro nth_equalityI) (simp_all add: cycle_to_def num_add_commute)
  with assms show ?thesis by (simp add: spec_timeout_def max_def)
qed

lemma timeout_examples:
  "getTimeout [''0s''] [''0.3s''] = Some (Fin 300)"
  "getTimeout [''0s''] [''0s''] = Some (Fin 0)"
  "getTimeout [''0s'', ''0.1s''] [''0.2s'', ''0.3s''] = Some (Fin 400)"
  "getTimeout [''0s'', ''5s''] [''1s''] = Some (Fin 1000)"
  "getTimeout [''0s''] [''1s'', ''2s''] = Some (Fin 2000)"
  "spec_timeout [''0s'', ''5s''] [''1s''] = Fin 6000"
  "spec_timeout [''0s''] [''1s'', ''2s''] = Fin 2000"
  by code_simp+

lemma split_examples:
  "split_comma_space ''0s'' = [''0s'']"
  "split_comma_space ''0.3s'' = [''0.3s'']"
  "split_comma_space ''0s, 0.1s'' = [''0s'', ''0.1s'']"
  "split_comma_space ''0.2s, 0.3s'' = [''0.2s'', ''0.3s'']"
  "transform_test False ''opacity'' = False"
  "transform_test False ''all'' = True"
  by code_simp+

section \<open>Claims about the timing computation\<close>

text \<open>
  Claim C9. For the delays \<^verbatim>\<open>["0s","0.1s"]\<close> and the durations \<^verbatim>\<open>["0.2s","0.3s"]\<close>,
  \<^verbatim>\<open>getTimeout\<close> returns 400, the greater of 0 + 200 and 100 + 300; on an element
  whose computed style has these values \<^verbatim>\<open>getTransitionInfo\<close> yields the timeout 400
  and \<open>propCount\<close> 2; and \<^verbatim>\<open>toMs\<close> reads the string \<^verbatim>\<open>0,3s\<close>, with its decimal
  comma, as 300 milliseconds.
\<close>

theorem C9_timeout_400_and_comma_decimal:
  "getTimeout [''0s'', ''0.1s''] [''0.2s'', ''0.3s''] = Some (Fin 400)
   \<and> map_option propCount
       (getTransitionInfo
          (el\<lparr>computed := (\<lambda>cl. \<lparr>transitionDelay = Some ''0s, 0.1s'',
                                   transitionDuration = Some ''0.2s, 0.3s'',
                                   transitionProperty = p\<rparr>)\<rparr>)) = Some 2
   \<and> map_option timeout
       (getTransitionInfo
          (el\<lparr>computed := (\<lambda>cl. \<lparr>transitionDelay = Some ''0s, 0.1s'',
                                   transitionDuration = Some ''0.2s, 0.3s'',
                                   transitionProperty = p\<rparr>)\<rparr>)) = Some (Fin 400)
   \<and> toMs ''0,3s'' = Fin 300"
proof -
  have "toMs ''0,3s'' = Fin 300"
    by (simp add: toMs_def slice_0_m1_def Number_of_def trim_def WhiteSpace_def
        non_decimal_def unsigned_decimal_def is_exp_char_def digits_in_def digit_val_def
        digits_value_def pow10_def)
  then show ?thesis
    by (simp add: getTransitionInfo_def getStyleProperties_def timeout_examples split_examples
        del: split_comma_space.simps)
qed

text \<open>
  Claim C7, as the code has it. The claim fails where the durations are the shorter list:
  the code repeats the delays only. With a non-empty list of delays (every list that
  \<^verbatim>\<open>split\<close> returns is non-empty) \<^verbatim>\<open>getTimeout\<close> returns; when the delays are not the
  longer list they are repeated to the length of the durations and the result is the
  greatest sum of delay and duration over that length, as the claim says; when the
  durations are the shorter list they are not repeated, the delays beyond their length
  are ignored, and the result is the greatest sum over the length of the durations.
\<close>

theorem C7_getTimeout_repeats_delays_only:
  assumes "delays \<noteq> []"
  shows "getTimeout delays durations =
         Some (if length delays \<le> length durations then spec_timeout delays durations
               else spec_timeout (take (length durations) delays) durations)"
proof (cases "length delays \<le> length durations")
  case True
  then show ?thesis
    using getTimeout_cycle [OF assms] spec_timeout_same_length [OF True assms] by simp
next
  case False
  show ?thesis
  proof (cases "durations = []")
    case True
    then show ?thesis using False getTimeout_cycle [OF assms, of durations]
      by (simp add: spec_timeout_def cycle_to_def)
  next
    case ne: False
    let ?t = "take (length durations) delays"
    have len: "length ?t = length durations" using False by simp
    have tne: "?t \<noteq> []" using ne len by auto
    have A: "spec_timeout ?t durations =
             Math_max (map (\<lambda>i. num_add (toMs (durations ! i)) (toMs (?t ! (i mod length ?t))))
                           [0 ..< length durations])"
      by (rule spec_timeout_same_length) (use len tne in simp_all)
    have B: "map (\<lambda>i. num_add (toMs (durations ! i)) (toMs (?t ! (i mod length ?t))))
                 [0 ..< length durations]
             = map (\<lambda>i. num_add (toMs (durations ! i)) (toMs (delays ! (i mod length delays))))
                 [0 ..< length durations]"
      using False by (intro nth_equalityI) simp_all
    have "getTimeout delays durations = Some (spec_timeout ?t durations)"
      unfolding A B by (rule getTimeout_cycle [OF assms])
    then show ?thesis using False by simp
  qed
qed

theorem C7_witness:
  "[''0s''] \<noteq> ([] :: string list)
   \<and> getTimeout [''0s''] [''1s'', ''2s''] = Some (spec_timeout [''0s''] [''1s'', ''2s''])
   \<and> getTimeout [''0s''] [''1s'', ''2s''] = Some (Fin 2000)"
  using C7_getTimeout_repeats_delays_only [of "[''0s'']" "[''1s'', ''2s'']"]
  by (simp add: timeout_examples)

text \<open>
  Where claim C7 fails: with the delays \<^verbatim>\<open>["0s","5s"]\<close> and the single duration
  \<^verbatim>\<open>["1s"]\<close> the claim's timeout is 5000 + 1000, that of the code is 0 + 1000.
\<close>

theorem C7_counterexample:
  "getTimeout [''0s'', ''5s''] [''1s''] = Some (Fin 1000)
   \<and> spec_timeout [''0s'', ''5s''] [''1s''] = Fin 6000
   \<and> getTimeout [''0s'', ''5s''] [''1s''] \<noteq> Some (spec_timeout [''0s'', ''5s''] [''1s''])"
  by (simp add: timeout_examples)

section \<open>Facts about the operations\<close>

text \<open>
  \<^verbatim>\<open>split\<close> returns at least one piece, so the loop of \<^verbatim>\<open>getTimeout\<close> ends on
  every computed style: \<^verbatim>\<open>getTransitionInfo\<close> always returns.
\<close>

lemma split_comma_space_nonempty: "split_comma_space s \<noteq> []"
  by (induction s rule: split_comma_space.induct) (auto split: list.splits)

lemma getTransitionInfo_total: "\<exists>info. getTransitionInfo el = Some info"
proof -
  have "getStyleProperties (transitionDelay (computed el (classList el))) \<noteq> []"
    by (simp add: getStyleProperties_def split_comma_space_nonempty)
  from getTimeout_cycle [OF this] show ?thesis
    by (simp add: getTransitionInfo_def Let_def)
qed

lemma getTransitionInfo_endId [simp]:
  "getTransitionInfo (el\<lparr>prop_endId := x\<rparr>) = getTransitionInfo el"
  by (simp add: getTransitionInfo_def)

lemma foldl_classList_add:
  "foldl (\<lambda>w c. classList_add e c w) w ts =
     w\<lparr>elements := (elements w)(e := (elements w e)
          \<lparr>classList := foldl (\<lambda>cl c. if c \<in> set cl then cl else cl @ [c])
                           (classList (elements w e)) ts\<rparr>),
       log := log w @ map (ClassAdd e) ts\<rparr>"
  by (induction ts arbitrary: w) (simp_all add: classList_add_def emit_def upd_el_def)

lemma foldl_classList_remove:
  "foldl (\<lambda>w c. classList_remove e c w) w ts =
     w\<lparr>elements := (elements w)(e := (elements w e)
          \<lparr>classList := foldl (\<lambda>cl c. removeAll c cl) (classList (elements w e)) ts\<rparr>),
       log := log w @ map (ClassRemove e) ts\<rparr>"
  by (induction ts arbitrary: w) (simp_all add: classList_remove_def emit_def upd_el_def)

lemma class_closed:
  "addTransitionClass e cls w =
     w\<lparr>elements := (elements w)(e := (elements w e)
          \<lparr>classList := foldl (\<lambda>cl c. if c \<in> set cl then cl else cl @ [c])
                           (classList (elements w e)) (tokens cls)\<rparr>),
       log := log w @ map (ClassAdd e) (tokens cls)\<rparr>"
  "removeTransitionClass e cls w =
     w\<lparr>elements := (elements w)(e := (elements w e)
          \<lparr>classList := foldl (\<lambda>cl c. removeAll c cl) (classList (elements w e))
                           (tokens cls)\<rparr>),
       log := log w @ map (ClassRemove e) (tokens cls)\<rparr>"
  by (simp_all add: addTransitionClass_def removeTransitionClass_def foldl_classList_add
      foldl_classList_remove)

lemma whenTransitionEnd_closed:
  assumes "getTransitionInfo (elements w e) = Some info"
  shows "whenTransitionEnd e v r w =
    Some (w\<lparr>elements := (elements w)(e := (elements w e)\<lparr>prop_endId := Some (endId w + 1)\<rparr>),
            endId := endId w + 1,
            timers := timers w
              @ (if truthy v
                 then [(timer_seq w, v,
                        ResolveIfNotStale \<lparr>c_el = e, c_id = endId w + 1, c_resolve = r\<rparr>)]
                 else [])
              @ [(if truthy v then timer_seq w + 1 else timer_seq w,
                  JNum (num_add (timeout info) (Fin 1)),
                  Fallback \<lparr>c_el = e, c_id = endId w + 1, c_resolve = r\<rparr> (propCount info))],
            timer_seq := (if truthy v then timer_seq w + 2 else timer_seq w + 1),
            listeners :=
              (if (e, \<lparr>c_el = e, c_id = endId w + 1, c_resolve = r\<rparr>, propCount info)
                    \<in> set (listeners w)
               then listeners w
               else listeners w
                    @ [(e, \<lparr>c_el = e, c_id = endId w + 1, c_resolve = r\<rparr>, propCount info)]),
            ended := (ended w)(endId w + 1 := 0),
            log := log w @ [EndIdSet e (endId w + 1)]
                   @ (if truthy v then [TimerSet v] else [])
                   @ [StyleRead e, TimerSet (JNum (num_add (timeout info) (Fin 1))),
                      ListenerAdd e (endId w + 1)]\<rparr>)"
  using assms
  by (simp add: whenTransitionEnd_def Let_def upd_el_def emit_def setTimeout_def
      addEventListener_def)


text \<open>The operations of the page other than \<^verbatim>\<open>whenTransitionEnd\<close> assign no id.\<close>

lemma assigned_of_class [simp]:
  "concat (map assigned_of (map (ClassAdd e) ts)) = []"
  "concat (map assigned_of (map (ClassRemove e) ts)) = []"
  by (induction ts) simp_all

lemma resolved_of_class [simp]:
  "concat (map resolved_of (map (ClassAdd e) ts)) = []"
  "concat (map resolved_of (map (ClassRemove e) ts)) = []"
  by (induction ts) simp_all

lemmas basic_defs = upd_el_def emit_def setElementDisplay_def requestAnimationFrame_def
  setTimeout_def addEventListener_def removeEventListener_def forceReflow_def nextFrame_def
  finishEnter_def finishLeave_def class_closed

lemma run_resolve_ids:
  "endId (run_resolve r w) = endId w \<and> assigned_ids (run_resolve r w) = assigned_ids w"
  by (cases r) (simp_all add: basic_defs assigned_ids_def)

lemma resolveIfNotStale_ids:
  "endId (resolveIfNotStale c w) = endId w
   \<and> assigned_ids (resolveIfNotStale c w) = assigned_ids w"
  by (simp add: resolveIfNotStale_def run_resolve_ids) (simp add: emit_def assigned_ids_def)

lemma end_call_ids:
  "endId (end_call c pc w) = endId w \<and> assigned_ids (end_call c pc w) = assigned_ids w"
  by (simp add: end_call_def resolveIfNotStale_ids)
     (simp add: removeEventListener_def emit_def assigned_ids_def)

lemma onEnd_ids:
  "endId (onEnd c pc t w) = endId w \<and> assigned_ids (onEnd c pc t w) = assigned_ids w"
  by (simp add: onEnd_def Let_def end_call_ids) (simp add: assigned_ids_def)

lemma run_timer_ids:
  "endId (run_timer cb w) = endId w \<and> assigned_ids (run_timer cb w) = assigned_ids w"
  by (cases cb) (simp_all add: fallback_def end_call_ids resolveIfNotStale_ids)

lemma fire_timer_ids:
  "endId (fire_timer h w) = endId w \<and> assigned_ids (fire_timer h w) = assigned_ids w"
  by (simp add: fire_timer_def run_timer_ids split: list.splits) (simp add: assigned_ids_def)

lemma dispatch_ids:
  "endId (dispatch ls t w) = endId w \<and> assigned_ids (dispatch ls t w) = assigned_ids w"
  by (induction ls t w rule: dispatch.induct) (simp_all add: onEnd_ids)

lemma effect_ids:
  "endId (effect e s w) = endId w \<and> assigned_ids (effect e s w) = assigned_ids w"
  by (simp add: effect_def Let_def basic_defs assigned_ids_def)

lemma transition_ids:
  "endId (transition e a v w) = endId w \<and> assigned_ids (transition e a v w) = assigned_ids w"
  by (simp add: transition_def saveArgument_def upd_el_def assigned_ids_def
      split: option.splits)

lemma cleanup_ids:
  "endId (cleanup e w) = endId w \<and> assigned_ids (cleanup e w) = assigned_ids w"
  by (simp add: cleanup_def upd_el_def assigned_ids_def)

lemma whenTransitionEnd_ids:
  assumes "whenTransitionEnd e v r w = Some w'"
  shows "endId w' = endId w + 1 \<and> assigned_ids w' = assigned_ids w @ [endId w + 1]
         \<and> prop_endId (elements w' e) = Some (endId w + 1)"
proof -
  obtain info where info: "getTransitionInfo (elements w e) = Some info"
    using getTransitionInfo_total by blast
  show ?thesis
    using assms by (auto simp add: whenTransitionEnd_closed [OF info] assigned_ids_def)
qed

lemma ids_increasing_next:
  assumes "ids_increasing w" "endId w' = endId w + 1"
    "assigned_ids w' = assigned_ids w @ [endId w + 1]"
  shows "ids_increasing w'"
  using assms
  by (auto simp add: ids_increasing_def sorted_wrt_append list_all_iff)

lemma ids_increasing_same:
  assumes "ids_increasing w" "endId w' = endId w \<and> assigned_ids w' = assigned_ids w"
  shows "ids_increasing w'"
  using assms by (simp add: ids_increasing_def)

lemma run_frame_cb_inv:
  assumes "ids_increasing w" "run_frame_cb cb w = Some w'"
  shows "ids_increasing w'"
proof (cases cb)
  case (NextFrameArrow x)
  with assms show ?thesis
    by (auto simp add: requestAnimationFrame_def emit_def ids_increasing_def assigned_ids_def)
next
  case (EnterFrame sc)
  let ?u = "addTransitionClass (sc_el sc) (enterToClass sc)
              (removeTransitionClass (sc_el sc) (enterFromClass sc) w)"
  have u: "ids_increasing ?u"
    by (rule ids_increasing_same [OF assms(1)]) (simp add: basic_defs assigned_ids_def)
  have "whenTransitionEnd (sc_el sc) (sc_enterDuration sc) (FinishEnter sc) ?u = Some w'"
    using assms(2) EnterFrame by simp
  from whenTransitionEnd_ids [OF this] show ?thesis
    using ids_increasing_next [OF u] by blast
next
  case (LeaveFrame sc)
  let ?u = "addTransitionClass (sc_el sc) (leaveToClass sc)
              (removeTransitionClass (sc_el sc) (leaveFromClass sc) w)"
  have u: "ids_increasing ?u"
    by (rule ids_increasing_same [OF assms(1)]) (simp add: basic_defs assigned_ids_def)
  have "whenTransitionEnd (sc_el sc) (sc_leaveDuration sc) (FinishLeaveHide sc) ?u = Some w'"
    using assms(2) LeaveFrame by simp
  from whenTransitionEnd_ids [OF this] show ?thesis
    using ids_increasing_next [OF u] by blast
qed

lemma run_frames_inv:
  "ids_increasing w \<Longrightarrow> run_frames cbs w = Some w' \<Longrightarrow> ids_increasing w'"
  by (induction cbs arbitrary: w) (auto split: option.splits dest: run_frame_cb_inv)

lemma step_inv:
  assumes "ids_increasing w" "step ev w = Some w'"
  shows "ids_increasing w'"
proof (cases ev)
  case Frame
  have "ids_increasing (w\<lparr>frames := []\<rparr>)"
    using assms(1) by (simp add: ids_increasing_def assigned_ids_def)
  then show ?thesis using assms(2) Frame run_frames_inv by auto
qed (use assms in \<open>auto intro: ids_increasing_same [OF assms(1)]
      simp add: transition_ids effect_ids cleanup_ids fire_timer_ids dispatch_ids\<close>)

lemma run_inv:
  "ids_increasing w \<Longrightarrow> run evs w = Some w' \<Longrightarrow> ids_increasing w'"
  by (induction evs arbitrary: w) (auto split: option.splits dest: step_inv)

text \<open>A path of the detector whose id is no longer the live one does nothing for the page.\<close>

lemma stale_fallback:
  assumes "prop_endId (elements w (c_el c)) \<noteq> Some (c_id c)"
  shows "untouched w (fallback c pc w)"
  using assms
  by (simp add: untouched_def fallback_def end_call_def resolveIfNotStale_def
      removeEventListener_def emit_def resolve_calls_def)

lemma stale_onEnd:
  assumes "prop_endId (elements w (c_el c)) \<noteq> Some (c_id c)"
  shows "untouched w (onEnd c pc t w)"
  using assms
  by (simp add: untouched_def onEnd_def Let_def end_call_def resolveIfNotStale_def
      removeEventListener_def emit_def resolve_calls_def)

text \<open>Every step of the event loop returns.\<close>

lemma whenTransitionEnd_total: "\<exists>w'. whenTransitionEnd e v r w = Some w'"
proof -
  obtain info where "getTransitionInfo (elements w e) = Some info"
    using getTransitionInfo_total by blast
  then show ?thesis by (simp add: whenTransitionEnd_closed)
qed

lemma run_frame_cb_total: "\<exists>w'. run_frame_cb cb w = Some w'"
  by (cases cb) (simp_all add: whenTransitionEnd_total)

lemma run_frames_total: "\<exists>w'. run_frames cbs w = Some w'"
proof (induction cbs arbitrary: w)
  case Nil
  show ?case by simp
next
  case (Cons cb cbs)
  obtain w1 where "run_frame_cb cb w = Some w1" using run_frame_cb_total by blast
  with Cons show ?case by simp
qed

lemma step_total: "\<exists>w'. step ev w = Some w'"
  by (cases ev) (simp_all add: run_frames_total)

lemma run_total: "\<exists>w'. run evs w = Some w'"
proof (induction evs arbitrary: w)
  case Nil
  show ?case by simp
next
  case (Cons ev evs)
  obtain w1 where "step ev w = Some w1" using step_total by blast
  with Cons show ?case by simp
qed

text \<open>
  A frame runs the callbacks of the queue one after the other; each of them only appends
  to the log, never lowers the counter and leaves every inline display as it is.
\<close>

lemma run_frames_append:
  "run_frames (xs @ ys) w =
     (case run_frames xs w of None \<Rightarrow> None | Some w' \<Rightarrow> run_frames ys w')"
  by (induction xs arbitrary: w) (simp_all split: option.splits)

lemma whenTransitionEnd_log:
  assumes "whenTransitionEnd e v r w = Some w'"
  shows "\<exists>ys. log w' = log w @ ys"
proof -
  obtain info where info: "getTransitionInfo (elements w e) = Some info"
    using getTransitionInfo_total by blast
  show ?thesis using assms by (auto simp add: whenTransitionEnd_closed [OF info])
qed

lemma run_frame_cb_log:
  assumes "run_frame_cb cb w = Some w'"
  shows "\<exists>ys. log w' = log w @ ys"
proof (cases cb)
  case (NextFrameArrow x)
  with assms show ?thesis by (auto simp add: requestAnimationFrame_def emit_def)
next
  case (EnterFrame sc)
  with assms obtain ys where
    "log w' = log (addTransitionClass (sc_el sc) (enterToClass sc)
                     (removeTransitionClass (sc_el sc) (enterFromClass sc) w)) @ ys"
    using whenTransitionEnd_log by fastforce
  then show ?thesis by (simp add: class_closed)
next
  case (LeaveFrame sc)
  with assms obtain ys where
    "log w' = log (addTransitionClass (sc_el sc) (leaveToClass sc)
                     (removeTransitionClass (sc_el sc) (leaveFromClass sc) w)) @ ys"
    using whenTransitionEnd_log by fastforce
  then show ?thesis by (simp add: class_closed)
qed

lemma run_frames_log:
  "run_frames cbs w = Some w' \<Longrightarrow> \<exists>ys. log w' = log w @ ys"
proof (induction cbs arbitrary: w)
  case Nil
  then show ?case by simp
next
  case (Cons cb cbs)
  then obtain w1 where w1: "run_frame_cb cb w = Some w1" "run_frames cbs w1 = Some w'"
    by (auto split: option.splits)
  from run_frame_cb_log [OF w1(1)] Cons.IH [OF w1(2)] show ?case by auto
qed

lemma run_frame_cb_endId:
  assumes "run_frame_cb cb w = Some w'"
  shows "endId w \<le> endId w'"
proof (cases cb)
  case (NextFrameArrow x)
  with assms show ?thesis by (auto simp add: requestAnimationFrame_def emit_def)
next
  case (EnterFrame sc)
  with assms have "endId w' = endId (addTransitionClass (sc_el sc) (enterToClass sc)
                     (removeTransitionClass (sc_el sc) (enterFromClass sc) w)) + 1"
    using whenTransitionEnd_ids by fastforce
  then show ?thesis by (simp add: class_closed)
next
  case (LeaveFrame sc)
  with assms have "endId w' = endId (addTransitionClass (sc_el sc) (leaveToClass sc)
                     (removeTransitionClass (sc_el sc) (leaveFromClass sc) w)) + 1"
    using whenTransitionEnd_ids by fastforce
  then show ?thesis by (simp add: class_closed)
qed

lemma run_frames_endId:
  "run_frames cbs w = Some w' \<Longrightarrow> endId w \<le> endId w'"
proof (induction cbs arbitrary: w)
  case Nil
  then show ?case by simp
next
  case (Cons cb cbs)
  then obtain w1 where w1: "run_frame_cb cb w = Some w1" "run_frames cbs w1 = Some w'"
    by (auto split: option.splits)
  from run_frame_cb_endId [OF w1(1)] Cons.IH [OF w1(2)] show ?case by simp
qed

lemma whenTransitionEnd_display:
  assumes "whenTransitionEnd e v r w = Some w'"
  shows "style_display (elements w' e') = style_display (elements w e')"
proof -
  obtain info where info: "getTransitionInfo (elements w e) = Some info"
    using getTransitionInfo_total by blast
  show ?thesis using assms by (auto simp add: whenTransitionEnd_closed [OF info])
qed

lemma run_frame_cb_display:
  assumes "run_frame_cb cb w = Some w'"
  shows "style_display (elements w' e') = style_display (elements w e')"
proof (cases cb)
  case (NextFrameArrow x)
  with assms show ?thesis by (auto simp add: requestAnimationFrame_def emit_def)
next
  case (EnterFrame sc)
  with assms have "style_display (elements w' e')
      = style_display (elements (addTransitionClass (sc_el sc) (enterToClass sc)
                     (removeTransitionClass (sc_el sc) (enterFromClass sc) w)) e')"
    using whenTransitionEnd_display by fastforce
  then show ?thesis by (simp add: class_closed)
next
  case (LeaveFrame sc)
  with assms have "style_display (elements w' e')
      = style_display (elements (addTransitionClass (sc_el sc) (leaveToClass sc)
                     (removeTransitionClass (sc_el sc) (leaveFromClass sc) w)) e')"
    using whenTransitionEnd_display by fastforce
  then show ?thesis by (simp add: class_closed)
qed

lemma run_frames_display:
  "run_frames cbs w = Some w' \<Longrightarrow> style_display (elements w' e') = style_display (elements w e')"
proof (induction cbs arbitrary: w)
  case Nil
  then show ?case by simp
next
  case (Cons cb cbs)
  then obtain w1 where w1: "run_frame_cb cb w = Some w1" "run_frames cbs w1 = Some w'"
    by (auto split: option.splits)
  from run_frame_cb_display [OF w1(1)] Cons.IH [OF w1(2)] show ?case by simp
qed

text \<open>Evaluation on the example pages.\<close>

lemma tokens_plain:
  assumes "s \<noteq> []" and "list_all (\<lambda>c. \<not> WhiteSpace c) s"
  shows "tokens s = [s]"
proof -
  obtain c cs where s: "s = c # cs" using assms(1) by (cases s) auto
  have c: "\<not> WhiteSpace c" and cs: "\<forall>x \<in> set cs. \<not> WhiteSpace x"
    using assms(2) s by (simp_all add: list_all_iff)
  have tw: "takeWhile (\<lambda>x. \<not> WhiteSpace x) cs = cs"
    using cs by (simp add: takeWhile_eq_all_conv)
  have dw: "dropWhile (\<lambda>x. \<not> WhiteSpace x) cs = []"
    using cs by (simp add: dropWhile_eq_Nil_conv)
  show ?thesis unfolding s by (simp only: tokens.simps c if_False tw dw)
qed

lemma tokens_v:
  "tokens ''v-enter-from'' = [''v-enter-from'']"
  "tokens ''v-enter-active'' = [''v-enter-active'']"
  "tokens ''v-enter-to'' = [''v-enter-to'']"
  "tokens ''v-leave-from'' = [''v-leave-from'']"
  "tokens ''v-leave-active'' = [''v-leave-active'']"
  "tokens ''v-leave-to'' = [''v-leave-to'']"
  by (simp_all add: tokens_plain WhiteSpace_def del: tokens.simps)

lemma jsdom_examples:
  "getTimeout [[]] [[]] = Some (Fin 0)"
  "split_comma_space [] = [[]]"
  "transform_test False ''undefined'' = False"
  by code_simp+

lemma info_fade:
  "computed el = fade_css \<Longrightarrow>
   getTransitionInfo el =
     Some (if ''v-enter-active'' \<in> set (classList el) \<or> ''v-leave-active'' \<in> set (classList el)
           then \<lparr>propCount = 1, timeout = Fin 300, hasTransform = False\<rparr>
           else \<lparr>propCount = 0, timeout = Fin 0, hasTransform = True\<rparr>)"
  by (simp add: getTransitionInfo_def fade_css_def getStyleProperties_def timeout_examples
      split_examples del: transform_test.simps split_comma_space.simps)

lemma info_none:
  "computed el = no_css \<Longrightarrow>
   getTransitionInfo el = Some \<lparr>propCount = 0, timeout = Fin 0, hasTransform = True\<rparr>"
  by (simp add: getTransitionInfo_def no_css_def getStyleProperties_def timeout_examples
      split_examples del: transform_test.simps split_comma_space.simps)

lemma info_jsdom:
  "getTransitionInfo
     (el\<lparr>computed := (\<lambda>cl. \<lparr>transitionDelay = None, transitionDuration = None,
                             transitionProperty = None\<rparr>)\<rparr>)
   = Some \<lparr>propCount = 0, timeout = Fin 0, hasTransform = False\<rparr>"
  by (simp add: getTransitionInfo_def getStyleProperties_def jsdom_examples Let_def
      del: transform_test.simps)

lemmas evdefs = page_def transition_def effect_def upd_el_def emit_def
  setElementDisplay_def isHTMLElement_def getElementDisplay_def the_scope_def
  DefautlTransitionName_def finishEnter_def finishLeave_def removeTransitionClass_def
  addTransitionClass_def classList_add_def classList_remove_def
  enterFromClass_def enterActiveClass_def enterToClass_def leaveFromClass_def
  leaveActiveClass_def leaveToClass_def forceReflow_def nextFrame_def
  requestAnimationFrame_def Let_def tokens_v
  whenTransitionEnd_def setTimeout_def addEventListener_def removeEventListener_def
  fire_timer_def fallback_def end_call_def resolveIfNotStale_def onEnd_def info_fade info_none
  outcome_def log_of_def resolve_calls_def

lemmas evdefs_bound = evdefs saveArgument_def isTransitionArugument_def ArgSet_def as_argument_def
  DefaultArg_def

section \<open>Claims about the completion detector\<close>

text \<open>
  Claim C3. In every world reached from one whose assigned ids increase strictly (a
  freshly loaded page is one), the ids assigned so far increase strictly; a call of
  \<^verbatim>\<open>whenTransitionEnd\<close> there gives the element the id \<open>endId + 1\<close>, greater than
  every id assigned before to any element. Each of the three resolution paths (the timer
  of the explicit duration, the \<^verbatim>\<open>transitionend\<close> counter, the fallback timer) whose
  id is not the element's \<^verbatim>\<open>_endId\<close> when it runs does nothing: no resolve callback
  runs and no element, timer or frame callback changes (the listener of the call itself
  may be removed). A path whose id is the live one runs the resolve callback.
\<close>

theorem C3_ids_increase_and_stale_paths_do_nothing:
  assumes "ids_increasing w0" and "run evs w0 = Some w"
  shows "ids_increasing w
    \<and> (whenTransitionEnd e v r w = Some w' \<longrightarrow>
          prop_endId (elements w' e) = Some (endId w + 1)
          \<and> endId w' = endId w + 1
          \<and> list_all (\<lambda>i. i < endId w + 1) (assigned_ids w)
          \<and> assigned_ids w' = assigned_ids w @ [endId w + 1]
          \<and> ids_increasing w')
    \<and> (prop_endId (elements u (c_el c)) \<noteq> Some (c_id c) \<longrightarrow>
          run_timer (ResolveIfNotStale c) u = u
          \<and> untouched u (run_timer (Fallback c pc) u)
          \<and> untouched u (onEnd c pc target u))
    \<and> (prop_endId (elements x (c_el d)) = Some (c_id d) \<longrightarrow>
          run_timer (ResolveIfNotStale d) x
            = run_resolve (c_resolve d) (emit (ResolveCall (c_id d)) x)
          \<and> (ended x (c_id d) < qc \<longrightarrow>
                run_timer (Fallback d qc) x
                  = run_resolve (c_resolve d)
                      (emit (ResolveCall (c_id d)) (removeEventListener (c_el d) d qc x)))
          \<and> (qc \<le> ended x (c_id d) + 1 \<longrightarrow>
                onEnd d qc (c_el d) x
                  = run_resolve (c_resolve d)
                      (emit (ResolveCall (c_id d))
                         (removeEventListener (c_el d) d qc
                            (x\<lparr>ended := (ended x)(c_id d := ended x (c_id d) + 1)\<rparr>)))))"
proof -
  have inv: "ids_increasing w" using assms by (rule run_inv)
  have "prop_endId (elements w' e) = Some (endId w + 1)
          \<and> endId w' = endId w + 1
          \<and> list_all (\<lambda>i. i < endId w + 1) (assigned_ids w)
          \<and> assigned_ids w' = assigned_ids w @ [endId w + 1]
          \<and> ids_increasing w'" if a: "whenTransitionEnd e v r w = Some w'"
  proof -
    note ids = whenTransitionEnd_ids [OF a]
    have "list_all (\<lambda>i. i < endId w + 1) (assigned_ids w)"
      using inv by (auto simp add: ids_increasing_def list_all_iff)
    moreover have "ids_increasing w'"
      using ids_increasing_next [OF inv] ids by blast
    ultimately show ?thesis using ids by simp
  qed
  moreover have "run_timer (ResolveIfNotStale c) u = u
          \<and> untouched u (run_timer (Fallback c pc) u)
          \<and> untouched u (onEnd c pc target u)"
    if "prop_endId (elements u (c_el c)) \<noteq> Some (c_id c)"
    using that stale_fallback [OF that] stale_onEnd [OF that]
    by (simp add: resolveIfNotStale_def)
  moreover have "run_timer (ResolveIfNotStale d) x
            = run_resolve (c_resolve d) (emit (ResolveCall (c_id d)) x)
          \<and> (ended x (c_id d) < qc \<longrightarrow>
                run_timer (Fallback d qc) x
                  = run_resolve (c_resolve d)
                      (emit (ResolveCall (c_id d)) (removeEventListener (c_el d) d qc x)))
          \<and> (qc \<le> ended x (c_id d) + 1 \<longrightarrow>
                onEnd d qc (c_el d) x
                  = run_resolve (c_resolve d)
                      (emit (ResolveCall (c_id d))
                         (removeEventListener (c_el d) d qc
                            (x\<lparr>ended := (ended x)(c_id d := ended x (c_id d) + 1)\<rparr>))))"
    if "prop_endId (elements x (c_el d)) = Some (c_id d)"
    using that
    by (simp add: resolveIfNotStale_def fallback_def end_call_def onEnd_def Let_def
        removeEventListener_def emit_def)
  ultimately show ?thesis using inv by blast
qed

theorem C3_witness:
  "ids_increasing (page fade_css)
   \<and> (\<exists>w w'. run [Bind 0 None JUndefined, Effect 0 (JBool True), Effect 0 (JBool False),
                     Frame, Frame] (page fade_css) = Some w
          \<and> ids_increasing w
          \<and> whenTransitionEnd 0 JUndefined
               (FinishEnter \<lparr>sc_el = 0, sc_name = ''v'', sc_enterDuration = JUndefined,
                              sc_leaveDuration = JUndefined\<rparr>) w = Some w'
          \<and> prop_endId (elements w' 0) = Some (endId w + 1)
          \<and> assigned_ids w' = assigned_ids w @ [endId w + 1])
   \<and> prop_endId (elements (page fade_css) 0) \<noteq> Some 7
   \<and> untouched (page fade_css)
        (run_timer
           (Fallback \<lparr>c_el = 0, c_id = 7,
                      c_resolve = FinishEnter \<lparr>sc_el = 0, sc_name = ''v'',
                                    sc_enterDuration = JUndefined,
                                    sc_leaveDuration = JUndefined\<rparr>\<rparr> 1)
           (page fade_css))"
proof -
  let ?r = "FinishEnter \<lparr>sc_el = 0, sc_name = ''v'', sc_enterDuration = JUndefined,
                          sc_leaveDuration = JUndefined\<rparr>"
  let ?evs = "[Bind 0 None JUndefined, Effect 0 (JBool True), Effect 0 (JBool False),
               Frame, Frame]"
  have inv: "ids_increasing (page fade_css)"
    by (simp add: ids_increasing_def assigned_ids_def page_def)
  obtain w where w: "run ?evs (page fade_css) = Some w"
    using run_total by blast
  obtain w' where w': "whenTransitionEnd 0 JUndefined ?r w = Some w'"
    using whenTransitionEnd_total by blast
  have stale: "prop_endId (elements (page fade_css) (c_el \<lparr>c_el = 0, c_id = 7, c_resolve = ?r\<rparr>))
               \<noteq> Some (c_id \<lparr>c_el = 0, c_id = 7, c_resolve = ?r\<rparr>)"
    by (simp add: page_def)
  note inst = C3_ids_increase_and_stale_paths_do_nothing
      [OF inv w, of 0 JUndefined ?r w' "page fade_css" "\<lparr>c_el = 0, c_id = 7, c_resolve = ?r\<rparr>"]
  have a: "ids_increasing w \<and> prop_endId (elements w' 0) = Some (endId w + 1)
           \<and> assigned_ids w' = assigned_ids w @ [endId w + 1]"
    using inst w' by blast
  have b: "untouched (page fade_css)
             (run_timer (Fallback \<lparr>c_el = 0, c_id = 7, c_resolve = ?r\<rparr> 1) (page fade_css))"
    using inst stale by blast
  have c: "prop_endId (elements (page fade_css) 0) \<noteq> Some 7" by (simp add: page_def)
  from w w' a have "\<exists>w w'. run ?evs (page fade_css) = Some w
          \<and> ids_increasing w
          \<and> whenTransitionEnd 0 JUndefined ?r w = Some w'
          \<and> prop_endId (elements w' 0) = Some (endId w + 1)
          \<and> assigned_ids w' = assigned_ids w @ [endId w + 1]"
    by blast
  with inv b c show ?thesis by blast
qed

text \<open>
  Claim C4, as the code has it. With an explicit duration that is truthy,
  \<^verbatim>\<open>whenTransitionEnd\<close> returns and has scheduled a timer with exactly that duration,
  whose firing runs the resolve callback if the id is still the element's
  \<^verbatim>\<open>_endId\<close> and does nothing otherwise. The computed style is not bypassed: it is
  read all the same, and the fallback timer of \<open>timeout + 1\<close> and the
  \<^verbatim>\<open>transitionend\<close> listener are set up as well.
\<close>

theorem C4_explicit_duration_adds_a_timer:
  assumes "truthy v"
  shows "\<exists>info w'. getTransitionInfo (elements w e) = Some info
          \<and> whenTransitionEnd e v r w = Some w'
          \<and> timers w' = timers w
               @ [(timer_seq w, v,
                   ResolveIfNotStale \<lparr>c_el = e, c_id = endId w + 1, c_resolve = r\<rparr>),
                  (timer_seq w + 1, JNum (num_add (timeout info) (Fin 1)),
                   Fallback \<lparr>c_el = e, c_id = endId w + 1, c_resolve = r\<rparr> (propCount info))]
          \<and> log w' = log w
               @ [EndIdSet e (endId w + 1), TimerSet v, StyleRead e,
                  TimerSet (JNum (num_add (timeout info) (Fin 1))),
                  ListenerAdd e (endId w + 1)]
          \<and> (e, \<lparr>c_el = e, c_id = endId w + 1, c_resolve = r\<rparr>, propCount info)
               \<in> set (listeners w')
          \<and> run_timer (ResolveIfNotStale \<lparr>c_el = e, c_id = endId w + 1, c_resolve = r\<rparr>) u
              = (if prop_endId (elements u e) = Some (endId w + 1)
                 then run_resolve r (emit (ResolveCall (endId w + 1)) u) else u)"
proof -
  obtain info where info: "getTransitionInfo (elements w e) = Some info"
    using getTransitionInfo_total by blast
  show ?thesis
    using assms info by (simp add: whenTransitionEnd_closed [OF info] resolveIfNotStale_def)
qed

theorem C4_witness:
  "truthy (JNum (Fin 800))
   \<and> log_of (whenTransitionEnd 0 (JNum (Fin 800))
               (FinishEnter \<lparr>sc_el = 0, sc_name = ''v'', sc_enterDuration = JNum (Fin 800),
                              sc_leaveDuration = JNum (Fin 800)\<rparr>) (page no_css))
     = Some [EndIdSet 0 1, TimerSet (JNum (Fin 800)), StyleRead 0, TimerSet (JNum (Fin 1)),
             ListenerAdd 0 1]"
proof -
  let ?r = "FinishEnter \<lparr>sc_el = 0, sc_name = ''v'', sc_enterDuration = JNum (Fin 800),
                          sc_leaveDuration = JNum (Fin 800)\<rparr>"
  have t: "truthy (JNum (Fin 800))" by simp
  from C4_explicit_duration_adds_a_timer [OF t, of "page no_css" 0 ?r "page no_css"]
  obtain info w' where a: "getTransitionInfo (elements (page no_css) 0) = Some info"
    and b: "whenTransitionEnd 0 (JNum (Fin 800)) ?r (page no_css) = Some w'"
    and c: "log w' = log (page no_css)
              @ [EndIdSet 0 (endId (page no_css) + 1), TimerSet (JNum (Fin 800)), StyleRead 0,
                 TimerSet (JNum (num_add (timeout info) (Fin 1))),
                 ListenerAdd 0 (endId (page no_css) + 1)]"
    by blast
  have "info = \<lparr>propCount = 0, timeout = Fin 0, hasTransform = True\<rparr>"
    using a by (simp add: info_none page_def)
  then show ?thesis using b c by (simp add: log_of_def page_def)
qed

text \<open>
  Where claim C4 fails: called with the explicit duration 500, the detector still reads
  the computed style, schedules the fallback timer and registers the listener.
\<close>

theorem C4_counterexample:
  "log_of (whenTransitionEnd 0 (JNum (Fin 500))
             (FinishEnter \<lparr>sc_el = 0, sc_name = ''v'', sc_enterDuration = JNum (Fin 500),
                            sc_leaveDuration = JNum (Fin 500)\<rparr>) (page no_css))
     = Some [EndIdSet 0 1, TimerSet (JNum (Fin 500)), StyleRead 0, TimerSet (JNum (Fin 1)),
             ListenerAdd 0 1]
   \<and> StyleRead 0 \<in> set [EndIdSet 0 1, TimerSet (JNum (Fin 500)), StyleRead 0,
                          TimerSet (JNum (Fin 1)), ListenerAdd 0 1]"
  by (simp add: evdefs)

text \<open>
  Claim C10. With an explicit duration that is falsy (0, \<open>null\<close>, \<open>undefined\<close>, also
  \<open>NaN\<close>, \<open>false\<close> and the empty string) \<^verbatim>\<open>whenTransitionEnd\<close> does exactly what
  it does with \<open>undefined\<close>: the only timer it schedules is the fallback timer, next to
  the style read and the listener. An element without \<^verbatim>\<open>_duration\<close> has both
  durations \<open>undefined\<close>.
\<close>

theorem C10_falsy_duration_schedules_no_timer:
  assumes "\<not> truthy v"
  shows "whenTransitionEnd e v r w = whenTransitionEnd e JUndefined r w
    \<and> (\<exists>info w'. getTransitionInfo (elements w e) = Some info
          \<and> whenTransitionEnd e v r w = Some w'
          \<and> timers w' = timers w
               @ [(timer_seq w, JNum (num_add (timeout info) (Fin 1)),
                   Fallback \<lparr>c_el = e, c_id = endId w + 1, c_resolve = r\<rparr> (propCount info))]
          \<and> log w' = log w
               @ [EndIdSet e (endId w + 1), StyleRead e,
                  TimerSet (JNum (num_add (timeout info) (Fin 1))),
                  ListenerAdd e (endId w + 1)])
    \<and> \<not> truthy (JNum (Fin 0)) \<and> \<not> truthy JNull \<and> \<not> truthy JUndefined
    \<and> (prop_duration (elements w e) = None \<longrightarrow>
          sc_enterDuration (the_scope e w) = JUndefined
          \<and> sc_leaveDuration (the_scope e w) = JUndefined)"
proof -
  obtain info where info: "getTransitionInfo (elements w e) = Some info"
    using getTransitionInfo_total by blast
  have "whenTransitionEnd e v r w = whenTransitionEnd e JUndefined r w"
    using assms by (simp add: whenTransitionEnd_def)
  moreover have "\<exists>w'. whenTransitionEnd e v r w = Some w'
          \<and> timers w' = timers w
               @ [(timer_seq w, JNum (num_add (timeout info) (Fin 1)),
                   Fallback \<lparr>c_el = e, c_id = endId w + 1, c_resolve = r\<rparr> (propCount info))]
          \<and> log w' = log w
               @ [EndIdSet e (endId w + 1), StyleRead e,
                  TimerSet (JNum (num_add (timeout info) (Fin 1))),
                  ListenerAdd e (endId w + 1)]"
    using assms by (simp add: whenTransitionEnd_closed [OF info])
  moreover have "prop_duration (elements w e) = None \<longrightarrow>
          sc_enterDuration (the_scope e w) = JUndefined
          \<and> sc_leaveDuration (the_scope e w) = JUndefined"
    by (simp add: the_scope_def)
  ultimately show ?thesis using info by auto
qed

theorem C10_witness:
  "\<not> truthy (JNum (Fin 0))
   \<and> log_of (whenTransitionEnd 0 (JNum (Fin 0))
               (FinishEnter \<lparr>sc_el = 0, sc_name = ''v'', sc_enterDuration = JNum (Fin 0),
                              sc_leaveDuration = JNum (Fin 0)\<rparr>) (page no_css))
     = Some [EndIdSet 0 1, StyleRead 0, TimerSet (JNum (Fin 1)), ListenerAdd 0 1]"
proof -
  let ?r = "FinishEnter \<lparr>sc_el = 0, sc_name = ''v'', sc_enterDuration = JNum (Fin 0),
                          sc_leaveDuration = JNum (Fin 0)\<rparr>"
  have f: "\<not> truthy (JNum (Fin 0))" by simp
  from C10_falsy_duration_schedules_no_timer [OF f, of 0 ?r "page no_css"]
  obtain info w' where a: "getTransitionInfo (elements (page no_css) 0) = Some info"
    and b: "whenTransitionEnd 0 (JNum (Fin 0)) ?r (page no_css) = Some w'"
    and c: "log w' = log (page no_css)
              @ [EndIdSet 0 (endId (page no_css) + 1), StyleRead 0,
                 TimerSet (JNum (num_add (timeout info) (Fin 1))),
                 ListenerAdd 0 (endId (page no_css) + 1)]"
    by blast
  have "info = \<lparr>propCount = 0, timeout = Fin 0, hasTransform = True\<rparr>"
    using a by (simp add: info_none page_def)
  then show ?thesis using b c by (simp add: log_of_def page_def)
qed

text \<open>
  Claim C2, which the code breaks. When the predicted timeout is not positive,
  \<open>propCount\<close> is 0, and the fallback timer tests \<^verbatim>\<open>ended < propCount\<close>, that is
  \<open>0 < 0\<close>: it never resolves. On a page without any transition (and likewise where the
  environment knows no transition property), a hide on a mounted element, two frames
  and the firing of the only timer leave the classes \<^verbatim>\<open>v-leave-active\<close> and
  \<^verbatim>\<open>v-leave-to\<close> on the element, its display untouched, nothing pending and no
  resolve callback run.
\<close>

theorem C2_fallback_never_resolves_without_transition:
  "fallback c 0 w = w
   \<and> getTransitionInfo (el\<lparr>computed := no_css\<rparr>)
       = Some \<lparr>propCount = 0, timeout = Fin 0, hasTransform = True\<rparr>
   \<and> getTransitionInfo
        (el\<lparr>computed := (\<lambda>cl. \<lparr>transitionDelay = None, transitionDuration = None,
                                transitionProperty = None\<rparr>)\<rparr>)
       = Some \<lparr>propCount = 0, timeout = Fin 0, hasTransform = False\<rparr>
   \<and> outcome 0
        (run [Bind 0 None JUndefined, Effect 0 (JBool True), Effect 0 (JBool False),
              Frame, Frame, TimerFires 0, Frame]
           (page no_css))
       = Some ([''v-leave-active'', ''v-leave-to''], Some [], 0, 0, [])"
proof -
  have "outcome 0
        (run [Bind 0 None JUndefined, Effect 0 (JBool True), Effect 0 (JBool False),
              Frame, Frame, TimerFires 0, Frame]
           (page no_css))
       = Some ([''v-leave-active'', ''v-leave-to''], Some [], 0, 0, [])"
    by (simp add: evdefs del: tokens.simps)
  then show ?thesis
    by (simp add: fallback_def info_none info_jsdom)
qed

section \<open>Claims about the effect and the directive\<close>

text \<open>
  Claim C5. The first run of the effect on an element (\<^verbatim>\<open>mounted\<close> still false, as
  the directive leaves it) changes no class list and calls neither \<^verbatim>\<open>classList.add\<close>
  nor \<^verbatim>\<open>classList.remove\<close>: it sets the inline display, on an element that has a
  \<^verbatim>\<open>style\<close>, to the display the element had when the directive was bound if
  \<open>show\<close> is truthy and to \<^verbatim>\<open>none\<close> otherwise, marks the element mounted, and
  queues no frame callback, timer or listener. Bound on an element whose inline display
  is \<open>d\<close>, the directive keeps \<open>d\<close>, and the first run writes \<open>d\<close> back when
  \<open>show\<close> is truthy.
\<close>

theorem C5_first_run_touches_no_class:
  assumes "\<not> mounted (elements w e)"
  shows "classList (elements (effect e show w) e') = classList (elements w e')
    \<and> log (effect e show w)
        = log w @ (if isHTMLElement (elements w e)
                   then [DisplaySet e (if truthy show then originalDisaplay (elements w e)
                                       else ''none'')]
                   else [])
    \<and> style_display (elements (effect e show w) e)
        = (if isHTMLElement (elements w e)
           then Some (if truthy show then originalDisaplay (elements w e) else ''none'')
           else None)
    \<and> mounted (elements (effect e show w) e)
    \<and> frames (effect e show w) = frames w
    \<and> timers (effect e show w) = timers w
    \<and> listeners (effect e show w) = listeners w
    \<and> endId (effect e show w) = endId w
    \<and> \<not> mounted (elements (transition e None val u) e)
    \<and> originalDisaplay (elements (transition e None val u) e)
        = getElementDisplay (elements u e)
    \<and> originalDisaplay (elements (transition e None val u) e)
        = (case style_display (elements u e) of None \<Rightarrow> [] | Some d \<Rightarrow> d)
    \<and> style_display (elements (effect e show (transition e None val u)) e)
        = (case style_display (elements u e) of
             None \<Rightarrow> None
           | Some d \<Rightarrow> Some (if truthy show then d else ''none''))
    \<and> log (effect e show (transition e None val u))
        = log u @ (case style_display (elements u e) of
                     None \<Rightarrow> []
                   | Some d \<Rightarrow> [DisplaySet e (if truthy show then d else ''none'')])
    \<and> classList (elements (effect e show (transition e None val u)) e')
        = classList (elements u e')
    \<and> transition e (Some ''show'') val u = transition e None val u"
  using assms
  by (simp add: effect_def setElementDisplay_def upd_el_def emit_def isHTMLElement_def
      transition_def getElementDisplay_def isTransitionArugument_def ArgSet_def
      as_argument_def DefaultArg_def split: option.splits)


theorem C5_witness:
  "\<not> mounted (elements (transition 0 None JUndefined
                           (upd_el 0 (\<lambda>el. el\<lparr>style_display := Some ''flex''\<rparr>) (page no_css))) 0)
   \<and> classList (elements (effect 0 (JBool True)
        (transition 0 None JUndefined
           (upd_el 0 (\<lambda>el. el\<lparr>style_display := Some ''flex''\<rparr>) (page no_css)))) 0) = []
   \<and> log (effect 0 (JBool True)
        (transition 0 None JUndefined
           (upd_el 0 (\<lambda>el. el\<lparr>style_display := Some ''flex''\<rparr>) (page no_css))))
       = [DisplaySet 0 ''flex'']
   \<and> style_display (elements (effect 0 (JBool True)
        (transition 0 None JUndefined
           (upd_el 0 (\<lambda>el. el\<lparr>style_display := Some ''flex''\<rparr>) (page no_css)))) 0)
       = Some ''flex''
   \<and> style_display (elements (effect 0 (JBool False)
        (transition 0 None JUndefined
           (upd_el 0 (\<lambda>el. el\<lparr>style_display := Some ''flex''\<rparr>) (page no_css)))) 0)
       = Some ''none''
   \<and> mounted (elements (effect 0 (JBool True)
        (transition 0 None JUndefined
           (upd_el 0 (\<lambda>el. el\<lparr>style_display := Some ''flex''\<rparr>) (page no_css)))) 0)"
proof -
  let ?u = "upd_el 0 (\<lambda>el. el\<lparr>style_display := Some ''flex''\<rparr>) (page no_css)"
  let ?W = "transition 0 None JUndefined ?u"
  have m: "\<not> mounted (elements ?W 0)"
    by (simp add: transition_def upd_el_def page_def)
  have h: "isHTMLElement (elements ?W 0)" and o: "originalDisaplay (elements ?W 0) = ''flex''"
    and c: "classList (elements ?W 0) = []" and l: "log ?W = []"
    by (simp_all add: transition_def upd_el_def page_def isHTMLElement_def
        getElementDisplay_def)
  from C5_first_run_touches_no_class [OF m, of "JBool True" 0 JUndefined ?u]
    C5_first_run_touches_no_class [OF m, of "JBool False" 0 JUndefined ?u]
  show ?thesis using m h o c l by simp
qed

text \<open>
  Claim C6. On a mounted element, a run of the effect with a falsy \<open>show\<close> followed
  by two animation frames does, in this order: remove the classes of
  \<^verbatim>\<open>{name}-enter-active\<close> and \<^verbatim>\<open>{name}-enter-to\<close> (the enter phase is finished at
  once), add \<^verbatim>\<open>{name}-leave-from\<close>, read the layout, add \<^verbatim>\<open>{name}-leave-active\<close>,
  request a frame; in the first frame, after the callbacks that were pending before the
  hide (their log is \<open>ys1\<close>), request the next frame; in the second frame, after the
  callbacks those have requested (their log is \<open>ys2\<close>), remove
  \<^verbatim>\<open>{name}-leave-from\<close>, add \<^verbatim>\<open>{name}-leave-to\<close> and start the detection with the
  leave duration, the second entry of \<^verbatim>\<open>_duration\<close>. With no frame callback pending
  before the hide, \<open>ys1\<close> and \<open>ys2\<close> are empty. The resolve callback of that
  detection, run in any world where its id is the live one, removes
  \<^verbatim>\<open>{name}-leave-active\<close> and \<^verbatim>\<open>{name}-leave-to\<close> and then sets the inline display
  to \<^verbatim>\<open>none\<close>. The name is \<^verbatim>\<open>v\<close> when none was bound.
\<close>

theorem C6_leave_order:
  assumes "mounted (elements w e)" and "\<not> truthy show"
  shows "\<exists>info x1 x2 ys1 ys2 w3.
      run [Effect e show, Frame, Frame] w = Some w3
    \<and> run_frames (frames w) ((effect e show w)\<lparr>frames := []\<rparr>) = Some x1
    \<and> log x1 = log (effect e show w) @ ys1
    \<and> run_frames (frames x1)
          ((requestAnimationFrame (LeaveFrame (the_scope e w)) x1)\<lparr>frames := []\<rparr>) = Some x2
    \<and> log x2 = log x1 @ [RequestFrame] @ ys2
    \<and> getTransitionInfo (elements w3 e) = Some info
    \<and> log w3 = log w
        @ map (ClassRemove e) (tokens (sc_name (the_scope e w) @ ''-enter-active''))
        @ map (ClassRemove e) (tokens (sc_name (the_scope e w) @ ''-enter-to''))
        @ map (ClassAdd e) (tokens (sc_name (the_scope e w) @ ''-leave-from''))
        @ [ForceReflow]
        @ map (ClassAdd e) (tokens (sc_name (the_scope e w) @ ''-leave-active''))
        @ [RequestFrame] @ ys1 @ [RequestFrame] @ ys2
        @ map (ClassRemove e) (tokens (sc_name (the_scope e w) @ ''-leave-from''))
        @ map (ClassAdd e) (tokens (sc_name (the_scope e w) @ ''-leave-to''))
        @ [EndIdSet e (endId x2 + 1)]
        @ (if truthy (sc_leaveDuration (the_scope e w))
           then [TimerSet (sc_leaveDuration (the_scope e w))] else [])
        @ [StyleRead e, TimerSet (JNum (num_add (timeout info) (Fin 1))),
           ListenerAdd e (endId x2 + 1)]
    \<and> timers w3 = timers x2
        @ (if truthy (sc_leaveDuration (the_scope e w))
           then [(timer_seq x2, sc_leaveDuration (the_scope e w),
                  ResolveIfNotStale \<lparr>c_el = e, c_id = endId x2 + 1,
                                      c_resolve = FinishLeaveHide (the_scope e w)\<rparr>)]
           else [])
        @ [(if truthy (sc_leaveDuration (the_scope e w)) then timer_seq x2 + 1 else timer_seq x2,
            JNum (num_add (timeout info) (Fin 1)),
            Fallback \<lparr>c_el = e, c_id = endId x2 + 1,
                      c_resolve = FinishLeaveHide (the_scope e w)\<rparr> (propCount info))]
    \<and> prop_endId (elements w3 e) = Some (endId x2 + 1)
    \<and> endId w \<le> endId x2
    \<and> (frames w = [] \<longrightarrow>
          ys1 = [] \<and> ys2 = [] \<and> endId x2 = endId w \<and> timers x2 = timers w
          \<and> timer_seq x2 = timer_seq w)
    \<and> log (resolveIfNotStale \<lparr>c_el = e, c_id = endId x2 + 1,
                                c_resolve = FinishLeaveHide (the_scope e w)\<rparr> w3)
        = log w3 @ [ResolveCall (endId x2 + 1)]
          @ map (ClassRemove e) (tokens (sc_name (the_scope e w) @ ''-leave-active''))
          @ map (ClassRemove e) (tokens (sc_name (the_scope e w) @ ''-leave-to''))
          @ (if isHTMLElement (elements w e) then [DisplaySet e ''none''] else [])
    \<and> style_display
          (elements (resolveIfNotStale \<lparr>c_el = e, c_id = endId x2 + 1,
                                         c_resolve = FinishLeaveHide (the_scope e w)\<rparr> w3) e)
        = (if isHTMLElement (elements w e) then Some ''none'' else None)
    \<and> (prop_endId (elements y e) = Some (endId x2 + 1) \<longrightarrow>
          log (resolveIfNotStale \<lparr>c_el = e, c_id = endId x2 + 1,
                                   c_resolve = FinishLeaveHide (the_scope e w)\<rparr> y)
            = log y @ [ResolveCall (endId x2 + 1)]
              @ map (ClassRemove e) (tokens (sc_name (the_scope e w) @ ''-leave-active''))
              @ map (ClassRemove e) (tokens (sc_name (the_scope e w) @ ''-leave-to''))
              @ (if isHTMLElement (elements y e) then [DisplaySet e ''none''] else [])
          \<and> style_display
              (elements (resolveIfNotStale \<lparr>c_el = e, c_id = endId x2 + 1,
                                            c_resolve = FinishLeaveHide (the_scope e w)\<rparr> y) e)
            = (if isHTMLElement (elements y e) then Some ''none'' else None))
    \<and> sc_leaveDuration (the_scope e w)
        = opt_index (case prop_duration (elements w e) of None \<Rightarrow> JUndefined | Some d \<Rightarrow> d) 1
    \<and> (prop_duration (elements w e) = Some (JArr [a, b]) \<longrightarrow>
          sc_leaveDuration (the_scope e w) = b)
    \<and> (prop_duration (elements w e) = None \<longrightarrow>
          sc_leaveDuration (the_scope e w) = JUndefined)
    \<and> (prop_name (elements w e) = None \<longrightarrow> sc_name (the_scope e w) = ''v'')
    \<and> (prop_name (elements w e) = Some (JStr n) \<longrightarrow> sc_name (the_scope e w) = n)"
proof -
  define sc where "sc = the_scope e w"
  define w1 where "w1 = effect e show w"
  have sc_el: "sc_el sc = e" by (simp add: sc_def the_scope_def Let_def)
  have w1_log: "log w1 = log w
        @ map (ClassRemove e) (tokens (sc_name sc @ ''-enter-active''))
        @ map (ClassRemove e) (tokens (sc_name sc @ ''-enter-to''))
        @ map (ClassAdd e) (tokens (sc_name sc @ ''-leave-from''))
        @ [ForceReflow]
        @ map (ClassAdd e) (tokens (sc_name sc @ ''-leave-active''))
        @ [RequestFrame]"
    and w1_frames: "frames w1 = frames w @ [NextFrameArrow (LeaveFrame sc)]"
    and w1_rest: "endId w1 = endId w" "timers w1 = timers w" "timer_seq w1 = timer_seq w"
      "style_display (elements w1 e) = style_display (elements w e)"
    using assms
    by (simp_all add: w1_def sc_def [symmetric] effect_def Let_def basic_defs sc_el
        enterActiveClass_def enterToClass_def leaveFromClass_def leaveActiveClass_def)
  obtain x1 where x1: "run_frames (frames w) (w1\<lparr>frames := []\<rparr>) = Some x1"
    using run_frames_total by blast
  obtain ys1 where ys1: "log x1 = log w1 @ ys1"
    using run_frames_log [OF x1] by auto
  define w2 where "w2 = requestAnimationFrame (LeaveFrame sc) x1"
  have step1: "step Frame w1 = Some w2"
    by (simp add: w1_frames run_frames_append x1 w2_def)
  have w2_frames: "frames w2 = frames x1 @ [LeaveFrame sc]"
    and w2_log: "log w2 = log x1 @ [RequestFrame]"
    and w2_rest: "endId w2 = endId x1" "timers w2 = timers x1" "timer_seq w2 = timer_seq x1"
      "style_display (elements w2 e) = style_display (elements x1 e)"
    by (simp_all add: w2_def requestAnimationFrame_def emit_def)
  obtain x2 where x2: "run_frames (frames x1) (w2\<lparr>frames := []\<rparr>) = Some x2"
    using run_frames_total by blast
  obtain ys2 where ys2: "log x2 = log x1 @ [RequestFrame] @ ys2"
    using run_frames_log [OF x2] w2_log by auto
  define u where "u = addTransitionClass e (leaveToClass sc)
                        (removeTransitionClass e (leaveFromClass sc) x2)"
  have step2: "step Frame w2 = whenTransitionEnd e (sc_leaveDuration sc) (FinishLeaveHide sc) u"
    by (simp add: w2_frames run_frames_append x2 u_def sc_el split: option.splits)
  have run_eq: "run [Effect e show, Frame, Frame] w
                = whenTransitionEnd e (sc_leaveDuration sc) (FinishLeaveHide sc) u"
    using step1 step2 by (simp add: w1_def split: option.splits)
  have u_log: "log u = log x2
        @ map (ClassRemove e) (tokens (sc_name sc @ ''-leave-from''))
        @ map (ClassAdd e) (tokens (sc_name sc @ ''-leave-to''))"
    and u_rest: "endId u = endId x2" "timers u = timers x2" "timer_seq u = timer_seq x2"
      "style_display (elements u e) = style_display (elements x2 e)"
    by (simp_all add: u_def class_closed leaveFromClass_def leaveToClass_def)
  have disp: "style_display (elements x2 e) = style_display (elements w e)"
    using run_frames_display [OF x1, of e] run_frames_display [OF x2, of e] w1_rest w2_rest
    by simp
  have ids: "endId w \<le> endId x2"
    using run_frames_endId [OF x1] run_frames_endId [OF x2] w1_rest w2_rest by simp
  obtain info where info: "getTransitionInfo (elements u e) = Some info"
    using getTransitionInfo_total by blast
  define c where "c = \<lparr>c_el = e, c_id = endId x2 + 1, c_resolve = FinishLeaveHide sc\<rparr>"
  obtain w3 where w3: "whenTransitionEnd e (sc_leaveDuration sc) (FinishLeaveHide sc) u = Some w3"
    and w3_log: "log w3 = log u @ [EndIdSet e (endId x2 + 1)]
        @ (if truthy (sc_leaveDuration sc) then [TimerSet (sc_leaveDuration sc)] else [])
        @ [StyleRead e, TimerSet (JNum (num_add (timeout info) (Fin 1))),
           ListenerAdd e (endId x2 + 1)]"
    and w3_timers: "timers w3 = timers x2
        @ (if truthy (sc_leaveDuration sc)
           then [(timer_seq x2, sc_leaveDuration sc, ResolveIfNotStale c)] else [])
        @ [(if truthy (sc_leaveDuration sc) then timer_seq x2 + 1 else timer_seq x2,
            JNum (num_add (timeout info) (Fin 1)), Fallback c (propCount info))]"
    and w3_id: "prop_endId (elements w3 e) = Some (endId x2 + 1)"
    and w3_disp: "style_display (elements w3 e) = style_display (elements w e)"
    and w3_info: "getTransitionInfo (elements w3 e) = Some info"
    by (simp add: whenTransitionEnd_closed [OF info] u_rest c_def info disp)
  have r_gen: "log (resolveIfNotStale c z)
        = log z @ [ResolveCall (endId x2 + 1)]
          @ map (ClassRemove e) (tokens (sc_name sc @ ''-leave-active''))
          @ map (ClassRemove e) (tokens (sc_name sc @ ''-leave-to''))
          @ (if isHTMLElement (elements z e) then [DisplaySet e ''none''] else [])
      \<and> style_display (elements (resolveIfNotStale c z) e)
        = (if isHTMLElement (elements z e) then Some ''none'' else None)"
    if "prop_endId (elements z e) = Some (endId x2 + 1)" for z
    using that
    by (simp add: resolveIfNotStale_def c_def basic_defs sc_el isHTMLElement_def
        leaveActiveClass_def leaveToClass_def)
  have html3: "isHTMLElement (elements w3 e) = isHTMLElement (elements w e)"
    using w3_disp by (simp add: isHTMLElement_def)
  have r3: "log (resolveIfNotStale c w3)
        = log w3 @ [ResolveCall (endId x2 + 1)]
          @ map (ClassRemove e) (tokens (sc_name sc @ ''-leave-active''))
          @ map (ClassRemove e) (tokens (sc_name sc @ ''-leave-to''))
          @ (if isHTMLElement (elements w e) then [DisplaySet e ''none''] else [])"
    "style_display (elements (resolveIfNotStale c w3) e)
        = (if isHTMLElement (elements w e) then Some ''none'' else None)"
    using r_gen [OF w3_id] html3 by simp_all
  have ry: "prop_endId (elements y e) = Some (endId x2 + 1) \<longrightarrow>
        log (resolveIfNotStale c y)
        = log y @ [ResolveCall (endId x2 + 1)]
          @ map (ClassRemove e) (tokens (sc_name sc @ ''-leave-active''))
          @ map (ClassRemove e) (tokens (sc_name sc @ ''-leave-to''))
          @ (if isHTMLElement (elements y e) then [DisplaySet e ''none''] else [])
      \<and> style_display (elements (resolveIfNotStale c y) e)
        = (if isHTMLElement (elements y e) then Some ''none'' else None)"
    using r_gen [of y] by blast
  have empty: "frames w = [] \<longrightarrow>
          ys1 = [] \<and> ys2 = [] \<and> endId x2 = endId w \<and> timers x2 = timers w
          \<and> timer_seq x2 = timer_seq w"
  proof
    assume f: "frames w = []"
    then have a: "x1 = w1\<lparr>frames := []\<rparr>" using x1 by simp
    then have "ys1 = []" using ys1 by simp
    moreover have b: "x2 = w2\<lparr>frames := []\<rparr>" using x2 a by simp
    then have "ys2 = []" using ys2 w2_log by simp
    ultimately show "ys1 = [] \<and> ys2 = [] \<and> endId x2 = endId w \<and> timers x2 = timers w
          \<and> timer_seq x2 = timer_seq w"
      using a b w1_rest w2_rest by simp
  qed
  have names: "sc_leaveDuration sc
        = opt_index (case prop_duration (elements w e) of None \<Rightarrow> JUndefined | Some d \<Rightarrow> d) 1"
    "prop_duration (elements w e) = Some (JArr [a, b]) \<longrightarrow> sc_leaveDuration sc = b"
    "prop_duration (elements w e) = None \<longrightarrow> sc_leaveDuration sc = JUndefined"
    "prop_name (elements w e) = None \<longrightarrow> sc_name sc = ''v''"
    "prop_name (elements w e) = Some (JStr n) \<longrightarrow> sc_name sc = n"
    by (simp_all add: sc_def the_scope_def Let_def DefautlTransitionName_def)
  have x1': "run_frames (frames w) ((effect e show w)\<lparr>frames := []\<rparr>) = Some x1"
    using x1 by (simp add: w1_def)
  have x2': "run_frames (frames x1)
          ((requestAnimationFrame (LeaveFrame (the_scope e w)) x1)\<lparr>frames := []\<rparr>) = Some x2"
    using x2 by (simp add: w2_def sc_def)
  have ys1': "log x1 = log (effect e show w) @ ys1" using ys1 by (simp add: w1_def)
  have full: "log w3 = log w
        @ map (ClassRemove e) (tokens (sc_name sc @ ''-enter-active''))
        @ map (ClassRemove e) (tokens (sc_name sc @ ''-enter-to''))
        @ map (ClassAdd e) (tokens (sc_name sc @ ''-leave-from''))
        @ [ForceReflow]
        @ map (ClassAdd e) (tokens (sc_name sc @ ''-leave-active''))
        @ [RequestFrame] @ ys1 @ [RequestFrame] @ ys2
        @ map (ClassRemove e) (tokens (sc_name sc @ ''-leave-from''))
        @ map (ClassAdd e) (tokens (sc_name sc @ ''-leave-to''))
        @ [EndIdSet e (endId x2 + 1)]
        @ (if truthy (sc_leaveDuration sc) then [TimerSet (sc_leaveDuration sc)] else [])
        @ [StyleRead e, TimerSet (JNum (num_add (timeout info) (Fin 1))),
           ListenerAdd e (endId x2 + 1)]"
    unfolding w3_log u_log ys2 ys1 w1_log by simp
  from run_eq w3 x1' ys1' x2' ys2 w3_info full w3_timers w3_id ids empty r3 ry names
  show ?thesis
    unfolding c_def sc_def
    by - (rule exI [of _ info], rule exI [of _ x1], rule exI [of _ x2], rule exI [of _ ys1],
          rule exI [of _ ys2], rule exI [of _ w3], simp)
qed

text \<open>
  Two instances. With the duration \<^verbatim>\<open>[300, 500]\<close> bound and nothing pending, the
  detection of the leave starts with the explicit timer of 500. With an enter still
  waiting for its frames, its callbacks run in between and the leave takes the id after
  the one of the enter.
\<close>

theorem C6_witness:
  "mounted (elements (effect 0 (JBool True) (transition 0 None JUndefined
       (transition 0 (Some ''duration'') (JArr [JNum (Fin 300), JNum (Fin 500)])
          (page fade_css)))) 0)
   \<and> \<not> truthy (JBool False)
   \<and> sc_leaveDuration (the_scope 0 (effect 0 (JBool True) (transition 0 None JUndefined
       (transition 0 (Some ''duration'') (JArr [JNum (Fin 300), JNum (Fin 500)])
          (page fade_css))))) = JNum (Fin 500)
   \<and> (\<exists>info w3.
         run [Effect 0 (JBool False), Frame, Frame]
           (effect 0 (JBool True) (transition 0 None JUndefined
              (transition 0 (Some ''duration'') (JArr [JNum (Fin 300), JNum (Fin 500)])
                 (page fade_css)))) = Some w3
         \<and> getTransitionInfo (elements w3 0) = Some info
         \<and> log w3 =
             [DisplaySet 0 [], ClassRemove 0 ''v-enter-active'', ClassRemove 0 ''v-enter-to'',
              ClassAdd 0 ''v-leave-from'', ForceReflow, ClassAdd 0 ''v-leave-active'',
              RequestFrame, RequestFrame, ClassRemove 0 ''v-leave-from'',
              ClassAdd 0 ''v-leave-to'', EndIdSet 0 1, TimerSet (JNum (Fin 500)), StyleRead 0,
              TimerSet (JNum (num_add (timeout info) (Fin 1))), ListenerAdd 0 1])
   \<and> log_of (run [Effect 0 (JBool False), Frame, Frame]
        (effect 0 (JBool True) (transition 0 None JUndefined
           (transition 0 (Some ''duration'') (JArr [JNum (Fin 300), JNum (Fin 500)])
              (page fade_css)))))
       = Some [DisplaySet 0 [], ClassRemove 0 ''v-enter-active'', ClassRemove 0 ''v-enter-to'',
               ClassAdd 0 ''v-leave-from'', ForceReflow, ClassAdd 0 ''v-leave-active'',
               RequestFrame, RequestFrame, ClassRemove 0 ''v-leave-from'',
               ClassAdd 0 ''v-leave-to'', EndIdSet 0 1, TimerSet (JNum (Fin 500)), StyleRead 0,
               TimerSet (JNum (Fin 301)), ListenerAdd 0 1]
   \<and> mounted (elements (effect 0 (JBool True) (effect 0 (JBool False)
        (transition 0 None JUndefined (page fade_css)))) 0)
   \<and> frames (effect 0 (JBool True) (effect 0 (JBool False)
        (transition 0 None JUndefined (page fade_css)))) \<noteq> []
   \<and> (\<exists>(info :: CSSTransitionInfo) (x2 :: world) ys1 ys2 w3.
         run [Effect 0 (JBool False), Frame, Frame]
           (effect 0 (JBool True) (effect 0 (JBool False)
              (transition 0 None JUndefined (page fade_css)))) = Some w3
         \<and> log w3 =
             [DisplaySet 0 ''none'', ClassRemove 0 ''v-leave-active'',
              ClassRemove 0 ''v-leave-to'', ClassAdd 0 ''v-enter-active'',
              ClassAdd 0 ''v-enter-from'', DisplaySet 0 [], RequestFrame,
              ClassRemove 0 ''v-enter-active'', ClassRemove 0 ''v-enter-to'',
              ClassAdd 0 ''v-leave-from'', ForceReflow, ClassAdd 0 ''v-leave-active'',
              RequestFrame] @ ys1 @ [RequestFrame] @ ys2
             @ [ClassRemove 0 ''v-leave-from'', ClassAdd 0 ''v-leave-to'',
                EndIdSet 0 (endId x2 + 1), StyleRead 0,
                TimerSet (JNum (num_add (timeout info) (Fin 1))),
                ListenerAdd 0 (endId x2 + 1)]
         \<and> prop_endId (elements w3 0) = Some (endId x2 + 1))
   \<and> log_of (run [Effect 0 (JBool False), Frame, Frame]
        (effect 0 (JBool True) (effect 0 (JBool False)
           (transition 0 None JUndefined (page fade_css)))))
       = Some [DisplaySet 0 ''none'', ClassRemove 0 ''v-leave-active'',
               ClassRemove 0 ''v-leave-to'', ClassAdd 0 ''v-enter-active'',
               ClassAdd 0 ''v-enter-from'', DisplaySet 0 [], RequestFrame,
               ClassRemove 0 ''v-enter-active'', ClassRemove 0 ''v-enter-to'',
               ClassAdd 0 ''v-leave-from'', ForceReflow, ClassAdd 0 ''v-leave-active'',
               RequestFrame, RequestFrame, RequestFrame, ClassRemove 0 ''v-enter-from'',
               ClassAdd 0 ''v-enter-to'', EndIdSet 0 1, StyleRead 0,
               TimerSet (JNum (Fin 301)), ListenerAdd 0 1,
               ClassRemove 0 ''v-leave-from'', ClassAdd 0 ''v-leave-to'', EndIdSet 0 2,
               StyleRead 0, TimerSet (JNum (Fin 301)), ListenerAdd 0 2]"
proof -
  let ?W1 = "effect 0 (JBool True) (transition 0 None JUndefined
       (transition 0 (Some ''duration'') (JArr [JNum (Fin 300), JNum (Fin 500)])
          (page fade_css)))"
  let ?W2 = "effect 0 (JBool True) (effect 0 (JBool False)
        (transition 0 None JUndefined (page fade_css)))"
  have t: "\<not> truthy (JBool False)" by simp
  have m1: "mounted (elements ?W1 0)" and f1: "frames ?W1 = []"
    and l1: "log ?W1 = [DisplaySet 0 []]" and i1: "endId ?W1 = 0"
    and n1: "sc_name (the_scope 0 ?W1) = ''v''"
    and d1: "sc_leaveDuration (the_scope 0 ?W1) = JNum (Fin 500)"
    by (simp_all add: evdefs_bound)
  have m2: "mounted (elements ?W2 0)" and f2: "frames ?W2 \<noteq> []"
    and l2: "log ?W2 = [DisplaySet 0 ''none'', ClassRemove 0 ''v-leave-active'',
              ClassRemove 0 ''v-leave-to'', ClassAdd 0 ''v-enter-active'',
              ClassAdd 0 ''v-enter-from'', DisplaySet 0 [], RequestFrame]"
    and n2: "sc_name (the_scope 0 ?W2) = ''v''"
    and d2: "sc_leaveDuration (the_scope 0 ?W2) = JUndefined"
    by (simp_all add: evdefs_bound del: tokens.simps)
  have a: "\<exists>info w3.
         run [Effect 0 (JBool False), Frame, Frame] ?W1 = Some w3
         \<and> getTransitionInfo (elements w3 0) = Some info
         \<and> log w3 =
             [DisplaySet 0 [], ClassRemove 0 ''v-enter-active'', ClassRemove 0 ''v-enter-to'',
              ClassAdd 0 ''v-leave-from'', ForceReflow, ClassAdd 0 ''v-leave-active'',
              RequestFrame, RequestFrame, ClassRemove 0 ''v-leave-from'',
              ClassAdd 0 ''v-leave-to'', EndIdSet 0 1, TimerSet (JNum (Fin 500)), StyleRead 0,
              TimerSet (JNum (num_add (timeout info) (Fin 1))), ListenerAdd 0 1]"
    using C6_leave_order [OF m1 t, where y = "page fade_css" and a = "JNum (Fin 0)" and b = "JNum (Fin 0)" and n = "[]"]
    unfolding l1 i1 n1 d1
    by (auto simp add: tokens_v f1 simp del: tokens.simps run.simps run_frames.simps)
  have b: "\<exists>(info :: CSSTransitionInfo) (x2 :: world) ys1 ys2 w3.
         run [Effect 0 (JBool False), Frame, Frame] ?W2 = Some w3
         \<and> log w3 =
             [DisplaySet 0 ''none'', ClassRemove 0 ''v-leave-active'',
              ClassRemove 0 ''v-leave-to'', ClassAdd 0 ''v-enter-active'',
              ClassAdd 0 ''v-enter-from'', DisplaySet 0 [], RequestFrame,
              ClassRemove 0 ''v-enter-active'', ClassRemove 0 ''v-enter-to'',
              ClassAdd 0 ''v-leave-from'', ForceReflow, ClassAdd 0 ''v-leave-active'',
              RequestFrame] @ ys1 @ [RequestFrame] @ ys2
             @ [ClassRemove 0 ''v-leave-from'', ClassAdd 0 ''v-leave-to'',
                EndIdSet 0 (endId x2 + 1), StyleRead 0,
                TimerSet (JNum (num_add (timeout info) (Fin 1))),
                ListenerAdd 0 (endId x2 + 1)]
         \<and> prop_endId (elements w3 0) = Some (endId x2 + 1)"
    using C6_leave_order [OF m2 t, where y = "page fade_css" and a = "JNum (Fin 0)"
      and b = "JNum (Fin 0)" and n = "[]"]
    unfolding l2 n2 d2
    apply (elim exE conjE)
    subgoal for info x1 x2 ys1 ys2 w3
      apply (rule exI [of _ info], rule exI [of _ x2], rule exI [of _ ys1],
             rule exI [of _ ys2], rule exI [of _ w3])
      apply (simp add: tokens_v del: tokens.simps run.simps run_frames.simps)
      done
    done
  have c: "log_of (run [Effect 0 (JBool False), Frame, Frame] ?W1)
       = Some [DisplaySet 0 [], ClassRemove 0 ''v-enter-active'', ClassRemove 0 ''v-enter-to'',
               ClassAdd 0 ''v-leave-from'', ForceReflow, ClassAdd 0 ''v-leave-active'',
               RequestFrame, RequestFrame, ClassRemove 0 ''v-leave-from'',
               ClassAdd 0 ''v-leave-to'', EndIdSet 0 1, TimerSet (JNum (Fin 500)), StyleRead 0,
               TimerSet (JNum (Fin 301)), ListenerAdd 0 1]"
    by (simp add: evdefs_bound del: tokens.simps)
  have d: "log_of (run [Effect 0 (JBool False), Frame, Frame] ?W2)
       = Some [DisplaySet 0 ''none'', ClassRemove 0 ''v-leave-active'',
               ClassRemove 0 ''v-leave-to'', ClassAdd 0 ''v-enter-active'',
               ClassAdd 0 ''v-enter-from'', DisplaySet 0 [], RequestFrame,
               ClassRemove 0 ''v-enter-active'', ClassRemove 0 ''v-enter-to'',
               ClassAdd 0 ''v-leave-from'', ForceReflow, ClassAdd 0 ''v-leave-active'',
               RequestFrame, RequestFrame, RequestFrame, ClassRemove 0 ''v-enter-from'',
               ClassAdd 0 ''v-enter-to'', EndIdSet 0 1, StyleRead 0,
               TimerSet (JNum (Fin 301)), ListenerAdd 0 1,
               ClassRemove 0 ''v-leave-from'', ClassAdd 0 ''v-leave-to'', EndIdSet 0 2,
               StyleRead 0, TimerSet (JNum (Fin 301)), ListenerAdd 0 2]"
    by (simp add: evdefs_bound del: tokens.simps)
  from m1 t d1 a c m2 f2 b d show ?thesis by blast
qed

text \<open>
  Claim C8, as the code has it. Binding \<^verbatim>\<open>duration\<close> stores \<^verbatim>\<open>[value, value]\<close> for
  every value that is not an array, the scalar 500 as the pair (500, 500); every array,
  whatever its length, is stored unchanged, the pair (300, 500) among them.
\<close>

theorem C8_arrays_are_stored_unchanged:
  "prop_duration (elements (saveArgument e Duration val w) e)
     = Some (if isArray val then val else JArr [val, val])
   \<and> prop_duration (elements (saveArgument e Duration (JNum (Fin 500)) w) e)
     = Some (JArr [JNum (Fin 500), JNum (Fin 500)])
   \<and> prop_duration
       (elements (saveArgument e Duration (JArr [JNum (Fin 300), JNum (Fin 500)]) w) e)
     = Some (JArr [JNum (Fin 300), JNum (Fin 500)])
   \<and> transition e (Some ''duration'') val w = saveArgument e Duration val w"
  by (simp add: saveArgument_def upd_el_def transition_def isTransitionArugument_def
      ArgSet_def as_argument_def DefaultArg_def)

theorem C8_witness:
  "prop_duration (elements (saveArgument 0 Duration (JStr ''fast'') (page no_css)) 0)
     = Some (JArr [JStr ''fast'', JStr ''fast''])"
  using C8_arrays_are_stored_unchanged [of 0 "JStr ''fast''" "page no_css"]
  by simp

text \<open>
  Where claim C8 fails: the array \<^verbatim>\<open>[500]\<close> is not a pair of two elements, and it is
  stored as it is, not as the pair of two copies of it.
\<close>

theorem C8_counterexample:
  "prop_duration (elements (saveArgument 0 Duration (JArr [JNum (Fin 500)]) (page no_css)) 0)
     = Some (JArr [JNum (Fin 500)])
   \<and> JArr [JNum (Fin 500)] \<noteq> JArr [JArr [JNum (Fin 500)], JArr [JNum (Fin 500)]]"
  by (simp add: saveArgument_def upd_el_def)

text \<open>
  Claim C1, which the code breaks, on a page with a transition of 0.3s. First run: the
  element is mounted hidden, shown and hidden again before any frame; after the two
  frames and both fallback timers nothing is pending, the last phase is the leave, and
  the class \<^verbatim>\<open>v-enter-to\<close> of the superseded enter phase is still on the element.
  Second run: the element is mounted visible and hidden; after two frames the detection
  of the leave is under way; the element is shown again, and before the next two frames
  the fallback timer of the leave fires: its resolve callback runs (id 1) and sets the
  display to \<^verbatim>\<open>none\<close> while the enter phase has begun; at the end the element is
  hidden although the last phase is the enter.
\<close>

theorem C1_superseded_phase_leaves_its_class_and_resolves:
  "outcome 0
     (run [Bind 0 None JUndefined, Effect 0 (JBool False), Effect 0 (JBool True),
           Effect 0 (JBool False), Frame, Frame, TimerFires 0, TimerFires 1,
           TransitionEnd 0 0]
        (page fade_css))
     = Some ([''v-enter-to''], Some ''none'', 0, 0, [2])
   \<and> outcome 0
       (run [Bind 0 None JUndefined, Effect 0 (JBool True), Effect 0 (JBool False),
             Frame, Frame, Effect 0 (JBool True), TimerFires 0]
          (page fade_css))
     = Some ([''v-enter-active'', ''v-enter-from''], Some ''none'', 1, 0, [1])
   \<and> outcome 0
       (run [Bind 0 None JUndefined, Effect 0 (JBool True), Effect 0 (JBool False),
             Frame, Frame, Effect 0 (JBool True), TimerFires 0, Frame, Frame, TimerFires 1,
             TransitionEnd 0 0]
          (page fade_css))
     = Some ([], Some ''none'', 0, 0, [1, 2])"
  by (simp add: evdefs del: tokens.simps)

end
